theory Spec2Isabelle
  imports Complex_Main "HOL-Library.Sublist"
begin

section \<open>JavaScript values\<close>

text \<open>
  The client (\<^verbatim>\<open>WebflowConnection\<close>) is dynamically typed at run time: decoded response
  bodies, request bodies and item data are plain JavaScript values. They are modelled by
  one datatype. Objects are association lists in property order (all keys used by the
  program are non-index strings, so property order is creation order). A number inside
  a value is given by an integer \<open>i\<close> and is the double nearest to \<open>i\<close>, as \<^verbatim>\<open>JSON.parse\<close>
  reads an integer literal; a promise or a response object is referred to by its
  identifier.
\<close>

datatype jsval =
    JUndefined
  | JNull
  | JBool bool
  | JNum int
  | JStr string
  | JArr "jsval list"
  | JObj "(string \<times> jsval) list"
  | JPromise nat
  | JResponse nat
  | JError string

text \<open>A JavaScript number that need not be an integer: a finite double is given by its
  value, a rational number (the two zeros are not told apart).\<close>

datatype jsnum = NaN | Fin rat | PInf | NInf

definition negate :: "jsnum \<Rightarrow> jsnum" where
  "negate x = (case x of NaN \<Rightarrow> NaN | Fin r \<Rightarrow> Fin (- r) | PInf \<Rightarrow> NInf | NInf \<Rightarrow> PInf)"

subsection \<open>The Number value for a real number\<close>

text \<open>
  IEEE 754 binary64, round to nearest, ties to even: a positive rational \<open>a\<close> with
  \<open>2 ^ e \<le> a < 2 ^ (e + 1)\<close> is rounded to a multiple of \<open>2 ^ (e - 52)\<close>, where \<open>e\<close> is not
  taken below \<open>-1022\<close> (the subnormal range); a result of \<open>2 ^ 1024\<close> or more is infinite.
\<close>

function bit_length :: "int \<Rightarrow> nat" where
  "bit_length n = (if n \<le> 0 then 0 else Suc (bit_length (n div 2)))"
  by pat_completeness auto
termination
  by (relation "measure nat") auto

declare bit_length.simps [simp del]

definition pow2 :: "int \<Rightarrow> rat" where
  "pow2 k = (if 0 \<le> k then 2 ^ nat k else 1 / 2 ^ nat (- k))"

definition binary_exponent :: "rat \<Rightarrow> int" where
  "binary_exponent a =
     (let e = int (bit_length (fst (quotient_of a))) - int (bit_length (snd (quotient_of a)))
      in if pow2 e \<le> a then e else e - 1)"

definition round_half_even :: "rat \<Rightarrow> int" where
  "round_half_even x =
     (let f = \<lfloor>x\<rfloor>; d = x - of_int f
      in if d < 1 / 2 then f else if 1 / 2 < d then f + 1 else if even f then f else f + 1)"

definition round_positive :: "rat \<Rightarrow> jsnum" where
  "round_positive a =
     (let e = max (binary_exponent a) (- 1022);
          q = pow2 (e - 52);
          v = of_int (round_half_even (a / q)) * q
      in if v < 2 ^ 1024 then Fin v else PInf)"

definition to_double :: "rat \<Rightarrow> jsnum" where
  "to_double x =
     (if x = 0 then Fin 0
      else if 0 < x then round_positive x
      else negate (round_positive (- x)))"

subsection \<open>\<^verbatim>\<open>Number(string)\<close>\<close>

text \<open>
  ECMAScript's StringToNumber: white space is trimmed; the empty string is 0; then either
  an unsigned hexadecimal, octal or binary integer literal, or an optionally signed
  \<^verbatim>\<open>Infinity\<close> or decimal literal (digits, optional fraction, optional exponent); anything
  else is NaN. The result is the Number value for the mathematical value of the literal.
  Strings are byte strings, as header values are.
\<close>

definition is_ws :: "char \<Rightarrow> bool" where
  "is_ws c = (let n = (of_char c :: nat) in
     n = 9 \<or> n = 10 \<or> n = 11 \<or> n = 12 \<or> n = 13 \<or> n = 32 \<or> n = 160)"

definition trim :: "string \<Rightarrow> string" where
  "trim s = rev (dropWhile is_ws (rev (dropWhile is_ws s)))"

definition is_digit :: "char \<Rightarrow> bool" where
  "is_digit c = ((48::nat) \<le> of_char c \<and> (of_char c :: nat) \<le> 57)"

definition hex_val :: "char \<Rightarrow> nat option" where
  "hex_val c = (let n = (of_char c :: nat) in
     if 48 \<le> n \<and> n \<le> 57 then Some (n - 48)
     else if 97 \<le> n \<and> n \<le> 102 then Some (n - 87)
     else if 65 \<le> n \<and> n \<le> 70 then Some (n - 55)
     else None)"

fun radix_val :: "nat \<Rightarrow> nat \<Rightarrow> string \<Rightarrow> nat option" where
  "radix_val b acc [] = Some acc"
| "radix_val b acc (c # cs) =
     (case hex_val c of
        None \<Rightarrow> None
      | Some d \<Rightarrow> if d < b then radix_val b (b * acc + d) cs else None)"

definition dec_val :: "string \<Rightarrow> nat" where
  "dec_val s = foldl (\<lambda>a c. 10 * a + (of_char c - 48)) 0 s"

definition scale10 :: "rat \<Rightarrow> int \<Rightarrow> rat" where
  "scale10 m e = (if 0 \<le> e then m * 10 ^ nat e else m / 10 ^ nat (- e))"

definition exponent_part :: "string \<Rightarrow> int option" where
  "exponent_part s =
     (case s of
        [] \<Rightarrow> Some 0
      | c # r \<Rightarrow>
          if c = CHR ''e'' \<or> c = CHR ''E'' then
            (let (neg, ds) =
               (case r of
                  [] \<Rightarrow> (False, [])
                | d # r' \<Rightarrow>
                    if d = CHR ''-'' then (True, r')
                    else if d = CHR ''+'' then (False, r') else (False, r))
             in if ds \<noteq> [] \<and> list_all is_digit ds
                then Some (if neg then - int (dec_val ds) else int (dec_val ds))
                else None)
          else None)"

definition unsigned_decimal :: "string \<Rightarrow> jsnum" where
  "unsigned_decimal s =
     (if s = ''Infinity'' then PInf
      else
        let ip = takeWhile is_digit s;
            r1 = dropWhile is_digit s;
            fp = (case r1 of [] \<Rightarrow> [] | c # r \<Rightarrow> if c = CHR ''.'' then takeWhile is_digit r else []);
            r2 = (case r1 of [] \<Rightarrow> [] | c # r \<Rightarrow> if c = CHR ''.'' then dropWhile is_digit r else r1)
        in if ip = [] \<and> fp = [] then NaN
           else (case exponent_part r2 of
                   None \<Rightarrow> NaN
                 | Some e \<Rightarrow>
                     to_double (scale10 (of_nat (dec_val (ip @ fp))) (e - int (length fp)))))"

definition non_decimal :: "string \<Rightarrow> nat option" where
  "non_decimal s =
     (case s of
        z # x # ds \<Rightarrow>
          if z = CHR ''0'' \<and> ds \<noteq> [] then
            (if x = CHR ''x'' \<or> x = CHR ''X'' then radix_val 16 0 ds
             else if x = CHR ''o'' \<or> x = CHR ''O'' then radix_val 8 0 ds
             else if x = CHR ''b'' \<or> x = CHR ''B'' then radix_val 2 0 ds
             else None)
          else None
      | _ \<Rightarrow> None)"

definition StringToNumber :: "string \<Rightarrow> jsnum" where
  "StringToNumber s =
     (let t = trim s in
      if t = [] then Fin 0
      else (case non_decimal t of
              Some n \<Rightarrow> to_double (of_nat n)
            | None \<Rightarrow>
                (case t of
                   [] \<Rightarrow> Fin 0
                 | c # r \<Rightarrow>
                     if c = CHR ''-'' then negate (unsigned_decimal r)
                     else if c = CHR ''+'' then unsigned_decimal r
                     else unsigned_decimal t)))"

text \<open>
  \<^verbatim>\<open>Number(response.headers.get(name))\<close>: \<^verbatim>\<open>get\<close> returns \<^verbatim>\<open>null\<close> for a header
  that is absent, and \<^verbatim>\<open>Number(null)\<close> is 0.
\<close>

definition Number_of_header :: "string option \<Rightarrow> jsnum" where
  "Number_of_header h = (case h of None \<Rightarrow> Fin 0 | Some s \<Rightarrow> StringToNumber s)"

text \<open>\<^verbatim>\<open>x || 0\<close> on a number: NaN and zero are falsy.\<close>

definition or_zero :: "jsnum \<Rightarrow> jsnum" where
  "or_zero x = (if x = NaN \<or> x = Fin 0 then Fin 0 else x)"

subsection \<open>Property access, coercions and iteration\<close>

definition TypeError :: jsval where
  "TypeError = JError ''TypeError''"

definition SyntaxError :: jsval where
  "SyntaxError = JError ''SyntaxError''"

text \<open>
  \<^verbatim>\<open>v.k\<close> for the property names the program reads (none of them is a built-in property
  of arrays, strings or numbers): reading a property of \<^verbatim>\<open>undefined\<close> or \<^verbatim>\<open>null\<close>
  throws a TypeError (\<open>Inl\<close> is the thrown value), a missing property is \<^verbatim>\<open>undefined\<close>.
\<close>

definition get_prop :: "jsval \<Rightarrow> string \<Rightarrow> jsval + jsval" where
  "get_prop v k =
     (case v of
        JUndefined \<Rightarrow> Inl TypeError
      | JNull \<Rightarrow> Inl TypeError
      | JObj kvs \<Rightarrow> Inr (case map_of kvs k of None \<Rightarrow> JUndefined | Some x \<Rightarrow> x)
      | _ \<Rightarrow> Inr JUndefined)"

text \<open>\<^verbatim>\<open>v[0]\<close>.\<close>

definition get_index0 :: "jsval \<Rightarrow> jsval + jsval" where
  "get_index0 v =
     (case v of
        JUndefined \<Rightarrow> Inl TypeError
      | JNull \<Rightarrow> Inl TypeError
      | JArr xs \<Rightarrow> Inr (case xs of [] \<Rightarrow> JUndefined | x # _ \<Rightarrow> x)
      | JStr s \<Rightarrow> Inr (case s of [] \<Rightarrow> JUndefined | c # _ \<Rightarrow> JStr [c])
      | JObj kvs \<Rightarrow> Inr (case map_of kvs ''0'' of None \<Rightarrow> JUndefined | Some x \<Rightarrow> x)
      | _ \<Rightarrow> Inr JUndefined)"

text \<open>Truthiness, as used by \<^verbatim>\<open>request.body ? ... : ...\<close>.\<close>

definition truthy :: "jsval \<Rightarrow> bool" where
  "truthy v =
     (case v of
        JUndefined \<Rightarrow> False
      | JNull \<Rightarrow> False
      | JBool b \<Rightarrow> b
      | JNum i \<Rightarrow> i \<noteq> 0
      | JStr s \<Rightarrow> s \<noteq> []
      | _ \<Rightarrow> True)"

text \<open>Decimal digits of a non-negative integer.\<close>

definition digit_char :: "nat \<Rightarrow> char" where
  "digit_char d = ''0123456789'' ! (d mod 10)"

function digits_of :: "int \<Rightarrow> string" where
  "digits_of i =
     (if i < 10 then [digit_char (nat i)]
      else digits_of (i div 10) @ [digit_char (nat (i mod 10))])"
  by pat_completeness auto
termination
  by (relation "measure nat") auto

declare digits_of.simps [simp del]

definition string_of_nat :: "nat \<Rightarrow> string" where
  "string_of_nat n = digits_of (int n)"

text \<open>
  Number::toString for a number given by an integer. For a positive integer \<open>x\<close> that is a
  double, with \<open>D\<close> decimal digits: the least number \<open>k\<close> of digits for which there are an
  integer \<open>s\<close> of \<open>k\<close> digits and an \<open>n\<close> such that \<open>s * 10 ^ (n - k)\<close> has the Number value
  \<open>x\<close>; of the values of \<open>s\<close> the one for which \<open>s * 10 ^ (n - k)\<close> is closest to \<open>x\<close> (the even
  one in a tie). The candidates are \<open>x\<close> cut to \<open>k\<close> digits and the next number of \<open>k\<close> digits
  after it. The digits are printed followed by zeros when \<open>n \<le> 21\<close> and in exponent form
  otherwise.
\<close>

definition shortest_at :: "int \<Rightarrow> nat \<Rightarrow> nat \<Rightarrow> (int \<times> nat) list" where
  "shortest_at x D k =
     (let lo = x div 10 ^ (D - k)
      in filter (\<lambda>(s, n). to_double (of_int (s * 10 ^ (n - k))) = Fin (of_int x))
           (if lo + 1 < 10 ^ k then [(lo, D), (lo + 1, D)]
            else [(lo, D), (10 ^ (k - 1), Suc D)]))"

fun closest :: "int \<Rightarrow> nat \<Rightarrow> (int \<times> nat) list \<Rightarrow> (int \<times> nat) option" where
  "closest x k [] = None"
| "closest x k [c] = Some c"
| "closest x k ((s1, n1) # (s2, n2) # cs) =
     (let d1 = \<bar>s1 * 10 ^ (n1 - k) - x\<bar>; d2 = \<bar>s2 * 10 ^ (n2 - k) - x\<bar>
      in if d1 < d2 \<or> (d1 = d2 \<and> even s1) then Some (s1, n1) else Some (s2, n2))"

fun shortest :: "int \<Rightarrow> nat \<Rightarrow> nat \<Rightarrow> nat \<Rightarrow> (int \<times> nat \<times> nat) option" where
  "shortest x D k 0 = None"
| "shortest x D k (Suc fuel) =
     (case closest x k (shortest_at x D k) of
        Some (s, n) \<Rightarrow> Some (s, n, k)
      | None \<Rightarrow> shortest x D (Suc k) fuel)"

definition positive_to_string :: "int \<Rightarrow> string" where
  "positive_to_string x =
     (let D = length (digits_of x)
      in case shortest x D 1 D of
           None \<Rightarrow> digits_of x
         | Some (s, n, k) \<Rightarrow>
             if n \<le> 21 then digits_of s @ replicate (n - k) (CHR ''0'')
             else (case digits_of s of
                     [] \<Rightarrow> []
                   | d # ds \<Rightarrow>
                       (if ds = [] then [d] else d # CHR ''.'' # ds) @ ''e+'' @
                       string_of_nat (n - 1)))"

definition number_to_string :: "int \<Rightarrow> string" where
  "number_to_string i =
     (case to_double (of_int i) of
        NaN \<Rightarrow> ''NaN''
      | PInf \<Rightarrow> ''Infinity''
      | NInf \<Rightarrow> ''-Infinity''
      | Fin x \<Rightarrow>
          if x = 0 then ''0''
          else if 0 < x then positive_to_string \<lfloor>x\<rfloor>
          else CHR ''-'' # positive_to_string \<lfloor>- x\<rfloor>)"

fun join_comma :: "string list \<Rightarrow> string" where
  "join_comma [] = []"
| "join_comma [s] = s"
| "join_comma (s # t # ts) = s @ '','' @ join_comma (t # ts)"

text \<open>
  ToString, as applied by a template literal. An error object is modelled by its name
  only.
\<close>

fun to_string :: "jsval \<Rightarrow> string" where
  "to_string JUndefined = ''undefined''"
| "to_string JNull = ''null''"
| "to_string (JBool b) = (if b then ''true'' else ''false'')"
| "to_string (JNum i) = number_to_string i"
| "to_string (JStr s) = s"
| "to_string (JArr xs) =
     join_comma (map (\<lambda>x. if x = JUndefined \<or> x = JNull then [] else to_string x) xs)"
| "to_string (JObj kvs) = ''[object Object]''"
| "to_string (JPromise p) = ''[object Promise]''"
| "to_string (JResponse n) = ''[object Response]''"
| "to_string (JError name) = name"

text \<open>ToNumber, as applied by the division in \<^verbatim>\<open>totalItems / 100\<close>.\<close>

fun to_number :: "jsval \<Rightarrow> jsnum" where
  "to_number JUndefined = NaN"
| "to_number JNull = Fin 0"
| "to_number (JBool b) = Fin (if b then 1 else 0)"
| "to_number (JNum i) = to_double (of_int i)"
| "to_number (JStr s) = StringToNumber s"
| "to_number (JArr []) = Fin 0"
| "to_number (JArr [x]) =
     (case x of
        JUndefined \<Rightarrow> Fin 0
      | JNull \<Rightarrow> Fin 0
      | JNum i \<Rightarrow> to_double (of_int i)
      | JStr s \<Rightarrow> StringToNumber s
      | JArr ys \<Rightarrow> to_number x
      | _ \<Rightarrow> NaN)"
| "to_number (JArr (x # y # ys)) = NaN"
| "to_number (JObj kvs) = NaN"
| "to_number (JPromise p) = NaN"
| "to_number (JResponse n) = NaN"
| "to_number (JError name) = NaN"

text \<open>The values a spread \<^verbatim>\<open>...v\<close> in an argument list iterates over.\<close>

definition iterate :: "jsval \<Rightarrow> jsval + jsval list" where
  "iterate v =
     (case v of
        JArr xs \<Rightarrow> Inr xs
      | JStr s \<Rightarrow> Inr (map (\<lambda>c. JStr [c]) s)
      | _ \<Rightarrow> Inl TypeError)"

text \<open>Setting a property keeps the position of an existing key and appends a new one.\<close>

fun obj_set :: "(string \<times> jsval) list \<Rightarrow> string \<Rightarrow> jsval \<Rightarrow> (string \<times> jsval) list" where
  "obj_set [] k v = [(k, v)]"
| "obj_set ((k', v') # kvs) k v = (if k' = k then (k, v) # kvs else (k', v') # obj_set kvs k v)"

text \<open>The own enumerable properties an object spread \<^verbatim>\<open>{...v}\<close> copies.\<close>

definition own_props :: "jsval \<Rightarrow> (string \<times> jsval) list" where
  "own_props v =
     (case v of
        JObj kvs \<Rightarrow> kvs
      | JArr xs \<Rightarrow> zip (map string_of_nat [0..<length xs]) xs
      | JStr s \<Rightarrow> zip (map string_of_nat [0..<length s]) (map (\<lambda>c. JStr [c]) s)
      | _ \<Rightarrow> [])"

definition spread_into :: "(string \<times> jsval) list \<Rightarrow> jsval \<Rightarrow> (string \<times> jsval) list" where
  "spread_into kvs v = foldl (\<lambda>acc (k, x). obj_set acc k x) kvs (own_props v)"

section \<open>The data model of the client\<close>

text \<open>The enumeration \<^verbatim>\<open>Locales\<close> and the identifier each member stands for.\<close>

datatype Locales = ENGLISH | SPANISH | CHINESE

fun locale_id :: "Locales \<Rightarrow> string" where
  "locale_id ENGLISH = ''6501245cc8bf8aa9d483b104''"
| "locale_id SPANISH = ''657ce37cdbd66c75792d9429''"
| "locale_id CHINESE = ''65d667943dcdf4188e58f15e''"

datatype http_method = GET | POST | PATCH | DELETE

text \<open>\<^verbatim>\<open>RequestOptions\<close>, and \<^verbatim>\<open>Request\<close>: the options with the two settling functions of
  the call's promise, here the identifier \<open>handle\<close> of that promise.\<close>

record RequestOptions =
  endpoint :: string
  meth :: "http_method option"
  body :: "jsval option"

record Request = RequestOptions +
  handle :: nat

text \<open>What the global \<^verbatim>\<open>fetch\<close> is called with; the body is the value handed to
  \<^verbatim>\<open>JSON.stringify\<close>.\<close>

record wire =
  url :: string
  wmethod :: http_method
  content_type_header :: string
  authorization :: string
  wbody :: "jsval option"

text \<open>
  A response as the program reads it: status, the two headers, and what decoding the
  body gives (\<open>body_json = None\<close>: the body is not JSON and \<^verbatim>\<open>response.json()\<close> rejects
  with a SyntaxError). An exchange either fails in transport, and the promise of the
  global \<^verbatim>\<open>fetch\<close> rejects with that error, or completes with a response.
\<close>

record response =
  status :: nat
  statusText :: string
  content_type :: "string option"
  ratelimit_remaining :: "string option"
  body_text :: string
  body_json :: "jsval option"

datatype net_result = NetFail jsval | NetResponse response


section \<open>Promises and the event loop\<close>

text \<open>
  The callbacks the program registers with \<^verbatim>\<open>then\<close>, one constructor per arrow function
  of the source, holding the variables the function closes over:
  \<^item> \<open>OnResponse request\<close>: the callback of \<^verbatim>\<open>request()\<close> on the promise of the global
    \<^verbatim>\<open>fetch\<close>;
  \<^item> \<open>FetchAll collectionId\<close>: the callback of \<^verbatim>\<open>fetchAllItems\<close> on the first page;
  \<^item> \<open>PushItems cell\<close>: \<^verbatim>\<open>response => items.push(...response.items)\<close>, where \<open>cell\<close> is the
    address of the shared array \<^verbatim>\<open>items\<close>;
  \<^item> \<open>ReturnItems cell\<close>: \<^verbatim>\<open>() => items\<close>;
  \<^item> \<open>CreateAll collectionId itemData\<close>: the callback of \<^verbatim>\<open>createItemAllLocales\<close> on the
    bulk-create call;
  \<^item> \<open>Publish collectionId\<close>: \<^verbatim>\<open>items => this.publishItems(collectionId, [items[0].id])\<close>;
  \<^item> \<open>ConsoleLog\<close>: \<^verbatim>\<open>console.log\<close>.
\<close>

datatype kont =
    OnResponse Request
  | FetchAll string
  | PushItems nat
  | ReturnItems nat
  | CreateAll string "(Locales \<times> jsval) list"
  | Publish string
  | ConsoleLog

text \<open>
  A promise reaction: \<open>Then k d\<close> is \<^verbatim>\<open>p.then(k)\<close> with derived promise \<open>d\<close> (a rejection
  of \<open>p\<close> passes through to \<open>d\<close>); \<open>Adopt p\<close> is the pair of settling functions of \<open>p\<close>,
  registered when \<open>p\<close> was resolved with another promise; \<open>AllElem a i\<close> is what
  \<^verbatim>\<open>Promise.all\<close> registers on its \<open>i\<close>-th element for the aggregate promise \<open>a\<close>.
\<close>

datatype reaction = Then kont nat | Adopt nat | AllElem nat nat

datatype outcome = Fulfilled jsval | Rejected jsval

text \<open>A pending promise records whether its resolve function has already been used
  (it is then locked in to another promise) and its reactions in registration order.\<close>

datatype pstate = Pending bool "reaction list" | Settled outcome

datatype job = ReactionJob reaction outcome | ThenableJob nat nat

text \<open>What a run leaves behind for an observer, in order: calls pushed onto the queue,
  invocations of the global \<^verbatim>\<open>fetch\<close> (numbered), settlements of promises, console output.\<close>

datatype obs =
    Enqueued Request
  | Dispatched nat wire
  | Settles nat outcome
  | LogDispatch jsnum http_method string
  | LogError Request nat string
  | Logged jsval

text \<open>
  The state: the fields of \<^verbatim>\<open>WebflowConnection\<close> (\<open>PRIMARY_LOCALE\<close>, \<open>queue\<close>, \<open>token\<close>,
  \<open>ratelimit\<close>, \<open>isFetching\<close>) and the part of the JavaScript run time the program
  uses: the promises (a promise is its index), the microtask queue \<open>jobs\<close>, the delays of
  the pending \<^verbatim>\<open>setTimeout(() => this.request(), delay)\<close> timers, the exchanges in
  flight (number, the callback waiting for the response and its derived promise, what
  was sent), the responses received, the bodies being decoded (exchange, whether as JSON, promise of
  \<^verbatim>\<open>response.json()\<close> or \<^verbatim>\<open>response.text()\<close>), the book-keeping of \<^verbatim>\<open>Promise.all\<close>
  (aggregate promise, values so far, elements remaining), the heap of shared arrays,
  whether the loop of \<^verbatim>\<open>fetchAllItems\<close> runs forever, and the observations.
\<close>

record state =
  PRIMARY_LOCALE :: Locales
  queue :: "Request list"
  token :: string
  ratelimit :: jsnum
  isFetching :: bool
  promises :: "pstate list"
  jobs :: "job list"
  timers :: "jsnum list"
  exchanges :: nat
  inflight :: "(nat \<times> kont \<times> nat \<times> wire) list"
  received :: "(nat \<times> response) list"
  bodies :: "(nat \<times> bool \<times> nat) list"
  alls :: "(nat \<times> jsval list \<times> nat) list"
  cells :: "jsval list"
  hung :: bool
  trace :: "obs list"

text \<open>\<^verbatim>\<open>new WebflowConnection(token, primaryLocale)\<close>.\<close>

definition new_connection :: "string \<Rightarrow> Locales \<Rightarrow> state" where
  "new_connection tok primaryLocale =
     \<lparr>PRIMARY_LOCALE = primaryLocale, queue = [], token = tok, ratelimit = Fin 120,
      isFetching = False, promises = [], jobs = [], timers = [], exchanges = 0,
      inflight = [], received = [], bodies = [], alls = [], cells = [], hung = False,
      trace = []\<rparr>"

subsection \<open>Promise operations\<close>

definition new_promise :: "state \<Rightarrow> nat \<times> state" where
  "new_promise st = (length (promises st), st\<lparr>promises := promises st @ [Pending False []]\<rparr>)"

definition lookup_promise :: "state \<Rightarrow> nat \<Rightarrow> pstate option" where
  "lookup_promise st p = (if p < length (promises st) then Some (promises st ! p) else None)"

text \<open>FulfillPromise and RejectPromise: a pending promise takes its outcome and its
  reactions become jobs; a settled promise is left as it is.\<close>

definition settle :: "nat \<Rightarrow> outcome \<Rightarrow> state \<Rightarrow> state" where
  "settle p out st =
     (case lookup_promise st p of
        Some (Pending b rs) \<Rightarrow>
          st\<lparr>promises := (promises st)[p := Settled out],
             jobs := jobs st @ map (\<lambda>r. ReactionJob r out) rs,
             trace := trace st @ [Settles p out]\<rparr>
      | _ \<Rightarrow> st)"

text \<open>Whether a value is a promise, and which.\<close>

definition as_promise :: "jsval \<Rightarrow> nat option" where
  "as_promise v = (case v of JPromise q \<Rightarrow> Some q | _ \<Rightarrow> None)"

text \<open>Resolving a pending promise with a value: with a promise, it is locked in and a
  job will subscribe to that promise; with itself, it rejects; with anything else, it
  fulfils.\<close>

definition resolve_with :: "nat \<Rightarrow> jsval \<Rightarrow> state \<Rightarrow> state" where
  "resolve_with p v st =
     (case lookup_promise st p of
        Some (Pending b rs) \<Rightarrow>
          (case as_promise v of
             Some q \<Rightarrow>
               if q = p then settle p (Rejected TypeError) st
               else st\<lparr>promises := (promises st)[p := Pending True rs],
                       jobs := jobs st @ [ThenableJob p q]\<rparr>
           | None \<Rightarrow> settle p (Fulfilled v) st)
      | _ \<Rightarrow> st)"

text \<open>The resolve and reject functions of a promise: only the first call of either has
  an effect.\<close>

definition unresolved :: "state \<Rightarrow> nat \<Rightarrow> bool" where
  "unresolved st p = (case lookup_promise st p of Some (Pending False rs) \<Rightarrow> True | _ \<Rightarrow> False)"

definition resolve :: "nat \<Rightarrow> jsval \<Rightarrow> state \<Rightarrow> state" where
  "resolve p v st = (if unresolved st p then resolve_with p v st else st)"

definition reject :: "nat \<Rightarrow> jsval \<Rightarrow> state \<Rightarrow> state" where
  "reject p r st = (if unresolved st p then settle p (Rejected r) st else st)"

text \<open>Registering a reaction: on a settled promise it becomes a job at once.\<close>

definition subscribe :: "nat \<Rightarrow> reaction \<Rightarrow> state \<Rightarrow> state" where
  "subscribe p r st =
     (case lookup_promise st p of
        Some (Pending b rs) \<Rightarrow> st\<lparr>promises := (promises st)[p := Pending b (rs @ [r])]\<rparr>
      | Some (Settled out) \<Rightarrow> st\<lparr>jobs := jobs st @ [ReactionJob r out]\<rparr>
      | None \<Rightarrow> st)"

text \<open>\<^verbatim>\<open>p.then(k)\<close>: the derived promise is returned.\<close>

definition then_k :: "nat \<Rightarrow> kont \<Rightarrow> state \<Rightarrow> nat \<times> state" where
  "then_k p k st = (let (d, st1) = new_promise st in (d, subscribe p (Then k d) st1))"

text \<open>
  \<^verbatim>\<open>Promise.all(elements)\<close>: each element that is not a promise is wrapped in a fresh
  fulfilled promise; the aggregate resolves at once when there is no element.
\<close>

fun all_subscribe :: "nat \<Rightarrow> nat \<Rightarrow> jsval list \<Rightarrow> state \<Rightarrow> state" where
  "all_subscribe a i [] st = st"
| "all_subscribe a i (x # xs) st =
     (case as_promise x of
        Some q \<Rightarrow> all_subscribe a (Suc i) xs (subscribe q (AllElem a i) st)
      | None \<Rightarrow>
          (let (q, st1) = new_promise st;
               st2 = settle q (Fulfilled x) st1
           in all_subscribe a (Suc i) xs (subscribe q (AllElem a i) st2)))"

definition promise_all :: "jsval list \<Rightarrow> state \<Rightarrow> nat \<times> state" where
  "promise_all xs st =
     (let (a, st1) = new_promise st;
          st2 = st1\<lparr>alls := alls st1 @ [(a, replicate (length xs) JUndefined, length xs)]\<rparr>;
          st3 = all_subscribe a 0 xs st2
      in (a, if xs = [] then resolve a (JArr []) st3 else st3))"

text \<open>The two functions \<^verbatim>\<open>Promise.all\<close> registers on an element: a fulfilment stores the
  value and, when it was the last one, resolves the aggregate with the array of values;
  a rejection rejects the aggregate.\<close>

definition all_element :: "nat \<Rightarrow> nat \<Rightarrow> outcome \<Rightarrow> state \<Rightarrow> state" where
  "all_element a i out st =
     (case out of
        Rejected r \<Rightarrow> reject a r st
      | Fulfilled v \<Rightarrow>
          (case map_of (alls st) a of
             None \<Rightarrow> st
           | Some (vals, remaining) \<Rightarrow>
               (let vals' = vals[i := v];
                    st1 = st\<lparr>alls := map (\<lambda>e. if fst e = a then (a, vals', remaining - 1) else e)
                                          (alls st)\<rparr>
                in if remaining - 1 = 0 then resolve a (JArr vals') st1 else st1)))"

section \<open>The dispatcher\<close>

text \<open>What \<^verbatim>\<open>request()\<close> hands to the global \<^verbatim>\<open>fetch\<close> for a call.\<close>

definition api_base :: string where
  "api_base = ''https://api.webflow.com/beta/''"

definition json_mime :: string where
  "json_mime = ''application/json''"

definition bearer :: "string \<Rightarrow> string" where
  "bearer tok = ''Bearer '' @ tok"

definition wire_of :: "string \<Rightarrow> Request \<Rightarrow> wire" where
  "wire_of tok r =
     \<lparr>url = api_base @ endpoint r,
      wmethod = (case meth r of None \<Rightarrow> GET | Some m \<Rightarrow> m),
      content_type_header = json_mime,
      authorization = bearer tok,
      wbody = (case body r of None \<Rightarrow> None | Some b \<Rightarrow> if truthy b then Some b else None)\<rparr>"

text \<open>
  \<^verbatim>\<open>fetch(url, init).then(k)\<close> with the global \<^verbatim>\<open>fetch\<close>: the exchange is numbered and in
  flight until the network completes it. The promise that \<^verbatim>\<open>fetch\<close> returns is held by
  nothing but this expression, so it is not given an identifier: the exchange in flight
  keeps its only reaction, the callback \<open>k\<close> with the derived promise, which is returned.
\<close>

definition global_fetch_then :: "wire \<Rightarrow> kont \<Rightarrow> state \<Rightarrow> nat \<times> state" where
  "global_fetch_then w k st =
     (let (d, st1) = new_promise st;
          n = exchanges st1
      in (d, st1\<lparr>exchanges := Suc n,
                 inflight := inflight st1 @ [(n, k, d, w)],
                 trace := trace st1 @ [Dispatched n w]\<rparr>))"

text \<open>
  \<^verbatim>\<open>private async request()\<close>. (Being \<^verbatim>\<open>async\<close>, every call also returns a promise of
  \<^verbatim>\<open>undefined\<close>; no caller keeps it, and it is left out.)
\<close>

definition request :: "state \<Rightarrow> state" where
  "request st =
     (if isFetching st then st
      else (case queue st of
              [] \<Rightarrow> st
            | r # rest \<Rightarrow>
                (let st1 = st\<lparr>queue := rest,
                              trace := trace st @
                                [LogDispatch (ratelimit st)
                                   (case meth r of None \<Rightarrow> GET | Some m \<Rightarrow> m) (endpoint r)]\<rparr>;
                     st2 = st1\<lparr>isFetching := True\<rparr>;
                     (d, st3) = global_fetch_then (wire_of (token st2) r) (OnResponse r) st2
                 in st3)))"

text \<open>The method \<^verbatim>\<open>fetch(options)\<close> of the class: the call's promise is created, the call
  is pushed onto the queue, a dispatch cycle is triggered, the promise is returned.\<close>

definition fetch :: "RequestOptions \<Rightarrow> state \<Rightarrow> nat \<times> state" where
  "fetch options st =
     (let (h, st1) = new_promise st;
          r = \<lparr>endpoint = endpoint options, meth = meth options, body = body options,
               handle = h\<rparr>;
          st2 = st1\<lparr>queue := queue st1 @ [r], trace := trace st1 @ [Enqueued r]\<rparr>
      in (h, request st2))"

text \<open>\<^verbatim>\<open>fetch(options: string)\<close>.\<close>

definition fetch_path :: "string \<Rightarrow> state \<Rightarrow> nat \<times> state" where
  "fetch_path s st = fetch \<lparr>endpoint = s, meth = None, body = None\<rparr> st"

text \<open>\<^verbatim>\<open>this.ratelimit < 60 ? 1000 * (60 - this.ratelimit) : 0\<close>.\<close>

definition pacing_delay :: "jsnum \<Rightarrow> jsnum" where
  "pacing_delay r =
     (case r of
        Fin x \<Rightarrow>
          if x < 60 then
            (case to_double (60 - x) of Fin d \<Rightarrow> to_double (1000 * d) | y \<Rightarrow> y)
          else Fin 0
      | NInf \<Rightarrow> PInf
      | PInf \<Rightarrow> Fin 0
      | NaN \<Rightarrow> Fin 0)"

text \<open>\<^verbatim>\<open>response.json()\<close> and \<^verbatim>\<open>response.text()\<close>: a promise that settles when the body
  has been read and decoded.\<close>

definition read_body :: "nat \<Rightarrow> bool \<Rightarrow> state \<Rightarrow> nat \<times> state" where
  "read_body n as_json st =
     (let (b, st1) = new_promise st
      in (b, st1\<lparr>bodies := bodies st1 @ [(n, as_json, b)]\<rparr>))"

definition is_json :: "response \<Rightarrow> bool" where
  "is_json resp =
     (case content_type resp of None \<Rightarrow> False | Some ct \<Rightarrow> sublist json_mime ct)"

text \<open>The callback \<^verbatim>\<open>response => {...}\<close> of \<^verbatim>\<open>request()\<close>, for the call \<open>r\<close>.\<close>

definition on_response :: "Request \<Rightarrow> jsval \<Rightarrow> state \<Rightarrow> (jsval + jsval) \<times> state" where
  "on_response r v st =
     (let st0 = st\<lparr>isFetching := False\<rparr> in
      case v of
        JResponse n \<Rightarrow>
          (case map_of (received st0) n of
             None \<Rightarrow> (Inl TypeError, st0)
           | Some resp \<Rightarrow>
               (let st1 = st0\<lparr>ratelimit := or_zero (Number_of_header (ratelimit_remaining resp))\<rparr>;
                    st2 =
                      (if status resp > 299 then
                         (let st1' = st1\<lparr>trace := trace st1 @
                                             [LogError r (status resp) (statusText resp)]\<rparr>;
                              (b, st1'') = read_body n (is_json resp) st1'
                          in reject (handle r) (JPromise b) st1'')
                       else
                         (let (b, st1'') = read_body n (is_json resp) st1
                          in resolve (handle r) (JPromise b) st1''));
                    st3 =
                      (if queue st2 \<noteq> []
                       then st2\<lparr>timers := timers st2 @ [pacing_delay (ratelimit st2)]\<rparr>
                       else st2)
                in (Inr JUndefined, st3)))
      | _ \<Rightarrow> (Inl TypeError, st0))"

section \<open>The operations of the client\<close>

text \<open>An \<^verbatim>\<open>async\<close> method creates its result promise on entry, resolves it with the value it
  returns and rejects it with what it throws.\<close>

text \<open>The endpoints, as the template literals of the methods build them.\<close>

definition items_endpoint :: "string \<Rightarrow> nat \<Rightarrow> nat \<Rightarrow> string" where
  "items_endpoint collectionId limit offset =
     ''collections/'' @ collectionId @ ''/items?offset='' @ number_to_string (int offset) @
     ''&limit='' @ number_to_string (int limit)"

definition live_suffix :: "bool \<Rightarrow> string" where
  "live_suffix live = (if live then ''/live'' else [])"

definition update_endpoint :: "string \<Rightarrow> jsval \<Rightarrow> bool \<Rightarrow> string" where
  "update_endpoint collectionId itemId live =
     ''collections/'' @ collectionId @ ''/items/'' @ to_string itemId @ live_suffix live"

definition create_endpoint :: "string \<Rightarrow> bool \<Rightarrow> string" where
  "create_endpoint collectionId live = ''collections/'' @ collectionId @ ''/items'' @ live_suffix live"

definition bulk_endpoint :: "string \<Rightarrow> string" where
  "bulk_endpoint collectionId = ''collections/'' @ collectionId @ ''/items/bulk''"

definition publish_endpoint :: "string \<Rightarrow> string" where
  "publish_endpoint collectionId = ''collections/'' @ collectionId @ ''/items/publish''"

definition delete_endpoint :: "string \<Rightarrow> string \<Rightarrow> bool \<Rightarrow> Locales \<Rightarrow> string" where
  "delete_endpoint collectionId itemId live l =
     ''collections/'' @ collectionId @ ''/items/'' @ itemId @ (if live then [] else ''/live'') @
     ''?cmsLocaleIds='' @ locale_id l"

definition fetchItems :: "string \<Rightarrow> nat \<Rightarrow> nat \<Rightarrow> state \<Rightarrow> nat \<times> state" where
  "fetchItems collectionId limit offset st =
     (let (w, st1) = new_promise st;
          (h, st2) = fetch_path (items_endpoint collectionId limit offset) st1
      in (w, resolve w (JPromise h) st2))"

definition fetchAllItems :: "string \<Rightarrow> state \<Rightarrow> nat \<times> state" where
  "fetchAllItems collectionId st =
     (let (w, st1) = new_promise st;
          (p, st2) = fetchItems collectionId 100 0 st1;
          (t, st3) = then_k p (FetchAll collectionId) st2
      in (w, resolve w (JPromise t) st3))"

definition updateItem :: "string \<Rightarrow> jsval \<Rightarrow> jsval \<Rightarrow> bool \<Rightarrow> state \<Rightarrow> nat \<times> state" where
  "updateItem collectionId itemId itemData live st =
     (let (w, st1) = new_promise st;
          ep = update_endpoint collectionId itemId live
      in case get_prop itemData ''isArchived'' of
           Inl e \<Rightarrow> (w, reject w e st1)
         | Inr a \<Rightarrow>
        (case get_prop itemData ''isDraft'' of
           Inl e \<Rightarrow> (w, reject w e st1)
         | Inr d \<Rightarrow>
        (case get_prop itemData ''fieldData'' of
           Inl e \<Rightarrow> (w, reject w e st1)
         | Inr fd \<Rightarrow>
        (case get_prop itemData ''cmsLocaleId'' of
           Inl e \<Rightarrow> (w, reject w e st1)
         | Inr l \<Rightarrow>
             (let (h, st2) =
                    fetch \<lparr>endpoint = ep, meth = Some PATCH,
                           body = Some (JObj [(''isArchived'', a), (''isDraft'', d),
                                              (''fieldData'', fd), (''cmsLocaleId'', l)])\<rparr> st1
              in (w, resolve w (JPromise h) st2))))))"

definition createItem :: "string \<Rightarrow> jsval \<Rightarrow> bool \<Rightarrow> state \<Rightarrow> nat \<times> state" where
  "createItem collectionId itemData live st =
     (let (w, st1) = new_promise st;
          ep = create_endpoint collectionId live
      in case get_prop itemData ''isArchived'' of
           Inl e \<Rightarrow> (w, reject w e st1)
         | Inr a \<Rightarrow>
        (case get_prop itemData ''isDraft'' of
           Inl e \<Rightarrow> (w, reject w e st1)
         | Inr d \<Rightarrow>
             (let (h, st2) =
                    fetch \<lparr>endpoint = ep, meth = Some POST,
                           body = Some (JObj [(''isArchived'', a), (''isDraft'', d),
                                              (''fieldData'', itemData)])\<rparr> st1
              in (w, resolve w (JPromise h) st2))))"

definition publishItems :: "string \<Rightarrow> jsval \<Rightarrow> state \<Rightarrow> nat \<times> state" where
  "publishItems collectionId itemIds st =
     (let (w, st1) = new_promise st;
          (h, st2) =
            fetch \<lparr>endpoint = publish_endpoint collectionId,
                   meth = Some POST, body = Some (JObj [(''itemIds'', itemIds)])\<rparr> st1
      in (w, resolve w (JPromise h) st2))"

text \<open>
  \<^verbatim>\<open>createItemAllLocales\<close>. The argument \<open>itemData\<close> is the object keyed by locale, as the
  list of its properties in order (an object has each key once).
\<close>

definition lookup_locale :: "(Locales \<times> jsval) list \<Rightarrow> Locales \<Rightarrow> jsval" where
  "lookup_locale itemData l = (case map_of itemData l of None \<Rightarrow> JUndefined | Some d \<Rightarrow> d)"

definition object_keys :: "(Locales \<times> jsval) list \<Rightarrow> jsval" where
  "object_keys itemData = JArr (map (\<lambda>kv. JStr (locale_id (fst kv))) itemData)"

definition createItemAllLocales ::
  "string \<Rightarrow> (Locales \<times> jsval) list \<Rightarrow> bool \<Rightarrow> state \<Rightarrow> nat \<times> state" where
  "createItemAllLocales collectionId itemData live st =
     (let (w, st1) = new_promise st;
          primary = lookup_locale itemData (PRIMARY_LOCALE st1)
      in case get_prop primary ''isArchived'' of
           Inl e \<Rightarrow> (w, reject w e st1)
         | Inr a \<Rightarrow>
        (case get_prop primary ''isDraft'' of
           Inl e \<Rightarrow> (w, reject w e st1)
         | Inr d \<Rightarrow>
        (case get_prop primary ''fieldData'' of
           Inl e \<Rightarrow> (w, reject w e st1)
         | Inr fd \<Rightarrow>
             (let (p0, st2) =
                    fetch \<lparr>endpoint = bulk_endpoint collectionId,
                           meth = Some POST,
                           body = Some (JObj [(''isArchived'', a), (''isDraft'', d),
                                              (''fieldData'', fd),
                                              (''cmsLocaleIds'', object_keys itemData)])\<rparr>
                      st1;
                  (p, st3) = then_k p0 (CreateAll collectionId itemData) st2;
                  st4 = (if live
                         then (let (q, s) = then_k p (Publish collectionId) st3;
                                   (q', s') = then_k q ConsoleLog s
                               in s')
                         else st3)
              in (w, resolve w (JPromise p) st4)))))"

fun delete_calls :: "string \<Rightarrow> string \<Rightarrow> bool \<Rightarrow> Locales list \<Rightarrow> state \<Rightarrow> nat list \<times> state" where
  "delete_calls collectionId itemId live [] st = ([], st)"
| "delete_calls collectionId itemId live (l # ls) st =
     (let (h, st1) =
            fetch \<lparr>endpoint = delete_endpoint collectionId itemId live l,
                   meth = Some DELETE, body = None\<rparr> st;
          (hs, st2) = delete_calls collectionId itemId live ls st1
      in (h # hs, st2))"

definition deleteItem :: "string \<Rightarrow> string \<Rightarrow> Locales list \<Rightarrow> bool \<Rightarrow> state \<Rightarrow> nat \<times> state" where
  "deleteItem collectionId itemId localeIds live st =
     (let (w, st1) = new_promise st;
          (hs, st2) = delete_calls collectionId itemId live localeIds st1;
          (a, st3) = promise_all (map JPromise hs) st2
      in (w, resolve w (JPromise a) st3))"

subsection \<open>The callbacks\<close>

text \<open>
  The loop \<^verbatim>\<open>for (let i = 1; i < Math.ceil(totalItems / 100); i++)\<close> of \<^verbatim>\<open>fetchAllItems\<close>:
  the values \<open>i\<close> takes, or \<open>None\<close> when the bound is infinite and the loop never ends.
\<close>

definition page_indices :: "jsval \<Rightarrow> nat list option" where
  "page_indices totalItems =
     (case to_number totalItems of
        Fin r \<Rightarrow>
          (case to_double (r / 100) of
             Fin q \<Rightarrow> Some [1..<nat \<lceil>q\<rceil>]
           | PInf \<Rightarrow> None
           | _ \<Rightarrow> Some [])
      | NaN \<Rightarrow> Some []
      | NInf \<Rightarrow> Some []
      | PInf \<Rightarrow> None)"

fun fetch_pages :: "string \<Rightarrow> nat \<Rightarrow> nat list \<Rightarrow> state \<Rightarrow> nat list \<times> state" where
  "fetch_pages collectionId cell [] st = ([], st)"
| "fetch_pages collectionId cell (i # idxs) st =
     (let (w, st1) = fetchItems collectionId 100 (i * 100) st;
          (d, st2) = then_k w (PushItems cell) st1;
          (ds, st3) = fetch_pages collectionId cell idxs st2
      in (d # ds, st3))"

text \<open>The \<^verbatim>\<open>async\<close> callback of \<^verbatim>\<open>fetchAllItems\<close>; \<^verbatim>\<open>items\<close> is the array of the first
  page itself, kept in a cell that the later callbacks push to.\<close>

definition fetch_all_k :: "string \<Rightarrow> jsval \<Rightarrow> state \<Rightarrow> (jsval + jsval) \<times> state" where
  "fetch_all_k collectionId resp st =
     (let (w, st1) = new_promise st in
      case get_prop resp ''items'' of
        Inl e \<Rightarrow> (Inr (JPromise w), reject w e st1)
      | Inr items \<Rightarrow>
     (case get_prop resp ''pagination'' of
        Inl e \<Rightarrow> (Inr (JPromise w), reject w e st1)
      | Inr pagination \<Rightarrow>
     (case get_prop pagination ''total'' of
        Inl e \<Rightarrow> (Inr (JPromise w), reject w e st1)
      | Inr totalItems \<Rightarrow>
          (let cell = length (cells st1);
               st2 = st1\<lparr>cells := cells st1 @ [items]\<rparr>
           in case page_indices totalItems of
                None \<Rightarrow> (Inr (JPromise w), st2\<lparr>hung := True\<rparr>)
              | Some idxs \<Rightarrow>
                  (let (ds, st3) = fetch_pages collectionId cell idxs st2;
                       (a, st4) = promise_all (map JPromise ds) st3;
                       (e, st5) = then_k a (ReturnItems cell) st4
                   in (Inr (JPromise w), resolve w (JPromise e) st5))))))"

text \<open>\<^verbatim>\<open>response => items.push(...response.items)\<close>: the value is the new length.\<close>

definition push_items_k :: "nat \<Rightarrow> jsval \<Rightarrow> state \<Rightarrow> (jsval + jsval) \<times> state" where
  "push_items_k cell resp st =
     (if cell < length (cells st) then
        (case cells st ! cell of
           JArr xs \<Rightarrow>
             (case get_prop resp ''items'' of
                Inl e \<Rightarrow> (Inl e, st)
              | Inr extra \<Rightarrow>
                  (case iterate extra of
                     Inl e \<Rightarrow> (Inl e, st)
                   | Inr ys \<Rightarrow>
                       (Inr (JNum (int (length (xs @ ys)))),
                        st\<lparr>cells := (cells st)[cell := JArr (xs @ ys)]\<rparr>)))
         | _ \<Rightarrow> (Inl TypeError, st))
      else (Inl TypeError, st))"

text \<open>\<^verbatim>\<open>() => items\<close>.\<close>

definition return_items_k :: "nat \<Rightarrow> jsval \<Rightarrow> state \<Rightarrow> (jsval + jsval) \<times> state" where
  "return_items_k cell v st =
     (if cell < length (cells st) then (Inr (cells st ! cell), st) else (Inl TypeError, st))"

text \<open>\<^verbatim>\<open>items.find(item => item.cmsLocaleId === this.PRIMARY_LOCALE)\<close> on the elements of
  an array.\<close>

fun find_item :: "string \<Rightarrow> jsval list \<Rightarrow> jsval + jsval" where
  "find_item primary [] = Inr JUndefined"
| "find_item primary (x # xs) =
     (case get_prop x ''cmsLocaleId'' of
        Inl e \<Rightarrow> Inl e
      | Inr l \<Rightarrow> if l = JStr primary then Inr x else find_item primary xs)"

text \<open>The object \<^verbatim>\<open>{cmsLocaleId: locale, ...itemData[locale]}\<close>.\<close>

definition secondary_update :: "Locales \<Rightarrow> jsval \<Rightarrow> jsval" where
  "secondary_update l d = JObj (spread_into [(''cmsLocaleId'', JStr (locale_id l))] d)"

text \<open>The loop over \<^verbatim>\<open>Object.keys(itemData)\<close> of \<^verbatim>\<open>createItemAllLocales\<close>: one
  \<^verbatim>\<open>updateItem\<close> per key that is not the primary locale; a throw ends the loop.\<close>

fun update_locales ::
  "string \<Rightarrow> jsval \<Rightarrow> (Locales \<times> jsval) list \<Rightarrow> Locales list \<Rightarrow> state \<Rightarrow> (jsval + nat list) \<times> state"
where
  "update_locales collectionId mainItem itemData [] st = (Inr [], st)"
| "update_locales collectionId mainItem itemData (l # ls) st =
     (if l = PRIMARY_LOCALE st then update_locales collectionId mainItem itemData ls st
      else
        (case get_prop mainItem ''id'' of
           Inl e \<Rightarrow> (Inl e, st)
         | Inr itemId \<Rightarrow>
             (let d = secondary_update l (lookup_locale itemData l);
                  (u, st1) = updateItem collectionId itemId d False st;
                  (rest, st2) = update_locales collectionId mainItem itemData ls st1
              in case rest of
                   Inl e \<Rightarrow> (Inl e, st2)
                 | Inr us \<Rightarrow> (Inr (u # us), st2))))"

text \<open>The callback of \<^verbatim>\<open>createItemAllLocales\<close> on the bulk-create call.\<close>

definition create_all_k ::
  "string \<Rightarrow> (Locales \<times> jsval) list \<Rightarrow> jsval \<Rightarrow> state \<Rightarrow> (jsval + jsval) \<times> state" where
  "create_all_k collectionId itemData v st =
     (case get_prop v ''items'' of
        Inl e \<Rightarrow> (Inl e, st)
      | Inr items \<Rightarrow>
          (case items of
             JArr xs \<Rightarrow>
               (case find_item (locale_id (PRIMARY_LOCALE st)) xs of
                  Inl e \<Rightarrow> (Inl e, st)
                | Inr mainItem \<Rightarrow>
                    (let (updates, st1) =
                           update_locales collectionId mainItem itemData (map fst itemData) st
                     in case updates of
                          Inl e \<Rightarrow> (Inl e, st1)
                        | Inr us \<Rightarrow>
                            (let (a, st2) = promise_all (mainItem # map JPromise us) st1
                             in (Inr (JPromise a), st2))))
           | _ \<Rightarrow> (Inl TypeError, st)))"

text \<open>\<^verbatim>\<open>items => this.publishItems(collectionId, [items[0].id])\<close>.\<close>

definition publish_k :: "string \<Rightarrow> jsval \<Rightarrow> state \<Rightarrow> (jsval + jsval) \<times> state" where
  "publish_k collectionId items st =
     (case get_index0 items of
        Inl e \<Rightarrow> (Inl e, st)
      | Inr first \<Rightarrow>
          (case get_prop first ''id'' of
             Inl e \<Rightarrow> (Inl e, st)
           | Inr itemId \<Rightarrow>
               (let (w, st1) = publishItems collectionId (JArr [itemId]) st
                in (Inr (JPromise w), st1))))"

definition console_log_k :: "jsval \<Rightarrow> state \<Rightarrow> (jsval + jsval) \<times> state" where
  "console_log_k v st = (Inr JUndefined, st\<lparr>trace := trace st @ [Logged v]\<rparr>)"

fun apply_kont :: "kont \<Rightarrow> jsval \<Rightarrow> state \<Rightarrow> (jsval + jsval) \<times> state" where
  "apply_kont (OnResponse r) v st = on_response r v st"
| "apply_kont (FetchAll collectionId) v st = fetch_all_k collectionId v st"
| "apply_kont (PushItems cell) v st = push_items_k cell v st"
| "apply_kont (ReturnItems cell) v st = return_items_k cell v st"
| "apply_kont (CreateAll collectionId itemData) v st = create_all_k collectionId itemData v st"
| "apply_kont (Publish collectionId) v st = publish_k collectionId v st"
| "apply_kont ConsoleLog v st = console_log_k v st"

subsection \<open>Jobs and events\<close>

text \<open>One microtask. The value or the exception of a callback settles the derived
  promise; the functions registered by an adoption settle the adopting promise.\<close>

fun run_job :: "job \<Rightarrow> state \<Rightarrow> state" where
  "run_job (ReactionJob (Then k d) (Fulfilled v)) st =
     (let (result, st1) = apply_kont k v st
      in case result of
           Inr v' \<Rightarrow> resolve d v' st1
         | Inl e \<Rightarrow> reject d e st1)"
| "run_job (ReactionJob (Then k d) (Rejected r)) st = reject d r st"
| "run_job (ReactionJob (Adopt p) (Fulfilled v)) st = resolve_with p v st"
| "run_job (ReactionJob (Adopt p) (Rejected r)) st = settle p (Rejected r) st"
| "run_job (ReactionJob (AllElem a i) out) st = all_element a i out st"
| "run_job (ThenableJob p q) st = subscribe q (Adopt p) st"

text \<open>The calls a user of the class can make.\<close>

datatype opcall =
    CallFetch RequestOptions
  | CallFetchItems string nat nat
  | CallFetchAllItems string
  | CallUpdateItem string jsval jsval bool
  | CallCreateItem string jsval bool
  | CallCreateItemAllLocales string "(Locales \<times> jsval) list" bool
  | CallPublishItems string jsval
  | CallDeleteItem string string "Locales list" bool

fun invoke :: "opcall \<Rightarrow> state \<Rightarrow> nat \<times> state" where
  "invoke (CallFetch options) st = fetch options st"
| "invoke (CallFetchItems c limit offset) st = fetchItems c limit offset st"
| "invoke (CallFetchAllItems c) st = fetchAllItems c st"
| "invoke (CallUpdateItem c i d live) st = updateItem c i d live st"
| "invoke (CallCreateItem c d live) st = createItem c d live st"
| "invoke (CallCreateItemAllLocales c d live) st = createItemAllLocales c d live st"
| "invoke (CallPublishItems c ids) st = publishItems c ids st"
| "invoke (CallDeleteItem c i ls live) st = deleteItem c i ls live st"

text \<open>
  The events of a run: \<open>Tick\<close> runs the next microtask; the others are tasks, which the
  event loop starts only when no microtask is left: the network completes exchange \<open>n\<close>
  and the promise of the global \<^verbatim>\<open>fetch\<close> settles, which makes its reaction a job
  (\<open>NetDone n\<close>), the body of response \<open>n\<close> has been decoded (\<open>BodyDone n\<close>), the \<open>i\<close>-th
  pending timer fires (\<open>TimerFire i\<close>); \<open>Call c\<close> is a call by the user of the class.
  The network is a function from the number of the exchange and what was sent to
  its result.
\<close>

datatype event = Tick | NetDone nat | BodyDone nat | TimerFire nat | Call opcall

definition net_done :: "(nat \<Rightarrow> wire \<Rightarrow> net_result) \<Rightarrow> nat \<Rightarrow> state \<Rightarrow> state option" where
  "net_done server n st =
     (case map_of (inflight st) n of
        None \<Rightarrow> None
      | Some (k, d, w) \<Rightarrow>
          (let st1 = st\<lparr>inflight := filter (\<lambda>e. fst e \<noteq> n) (inflight st)\<rparr>
           in case server n w of
                NetFail e \<Rightarrow>
                  Some (st1\<lparr>jobs := jobs st1 @ [ReactionJob (Then k d) (Rejected e)]\<rparr>)
              | NetResponse resp \<Rightarrow>
                  Some (st1\<lparr>received := received st1 @ [(n, resp)],
                            jobs := jobs st1 @ [ReactionJob (Then k d) (Fulfilled (JResponse n))]\<rparr>)))"

definition body_done :: "nat \<Rightarrow> state \<Rightarrow> state option" where
  "body_done n st =
     (case map_of (bodies st) n of
        None \<Rightarrow> None
      | Some (as_json, b) \<Rightarrow>
          (case map_of (received st) n of
             None \<Rightarrow> None
           | Some resp \<Rightarrow>
               (let st1 = st\<lparr>bodies := filter (\<lambda>e. fst e \<noteq> n) (bodies st)\<rparr>
                in if as_json then
                     (case body_json resp of
                        None \<Rightarrow> Some (reject b SyntaxError st1)
                      | Some v \<Rightarrow> Some (resolve b v st1))
                   else Some (resolve b (JStr (body_text resp)) st1))))"

definition timer_fire :: "nat \<Rightarrow> state \<Rightarrow> state option" where
  "timer_fire i st =
     (if i < length (timers st)
      then Some (request (st\<lparr>timers := take i (timers st) @ drop (Suc i) (timers st)\<rparr>))
      else None)"

definition step :: "(nat \<Rightarrow> wire \<Rightarrow> net_result) \<Rightarrow> event \<Rightarrow> state \<Rightarrow> state option" where
  "step server e st =
     (if hung st then None
      else (case e of
              Tick \<Rightarrow> (case jobs st of [] \<Rightarrow> None | j # js \<Rightarrow> Some (run_job j (st\<lparr>jobs := js\<rparr>)))
            | NetDone n \<Rightarrow> if jobs st = [] then net_done server n st else None
            | BodyDone n \<Rightarrow> if jobs st = [] then body_done n st else None
            | TimerFire i \<Rightarrow> if jobs st = [] then timer_fire i st else None
            | Call c \<Rightarrow> Some (snd (invoke c st))))"

text \<open>A run: the events of a schedule one after the other; \<open>None\<close> when an event of the
  schedule cannot happen in the state reached.\<close>

fun run :: "(nat \<Rightarrow> wire \<Rightarrow> net_result) \<Rightarrow> event list \<Rightarrow> state \<Rightarrow> state option" where
  "run server [] st = Some st"
| "run server (e # es) st =
     (case step server e st of None \<Rightarrow> None | Some st1 \<Rightarrow> run server es st1)"

text \<open>Nothing is left to happen: no microtask, no exchange in flight, no body being
  decoded, no timer.\<close>

definition quiescent :: "state \<Rightarrow> bool" where
  "quiescent st = (jobs st = [] \<and> inflight st = [] \<and> bodies st = [] \<and> timers st = [])"

subsection \<open>All the runs of a closed system\<close>

text \<open>
  When the user makes no further call, finitely many events can happen in a state. The
  function \<open>explore\<close> follows every one of them, to the given depth, and returns the
  schedules after which nothing more can happen, each with the state it ends in (\<open>None\<close>
  when the depth does not suffice).
\<close>

definition candidates :: "state \<Rightarrow> event list" where
  "candidates st =
     (if jobs st \<noteq> [] then [Tick]
      else map (\<lambda>e. NetDone (fst e)) (inflight st) @
           map (\<lambda>e. BodyDone (fst e)) (bodies st) @
           map TimerFire [0..<length (timers st)])"

definition successors :: "(nat \<Rightarrow> wire \<Rightarrow> net_result) \<Rightarrow> state \<Rightarrow> (event \<times> state) list" where
  "successors server st =
     List.map_filter (\<lambda>e. map_option (Pair e) (step server e st)) (candidates st)"

definition prepend :: "event \<Rightarrow> (event list \<times> state) list option \<Rightarrow> (event list \<times> state) list option" where
  "prepend e rs = map_option (map (\<lambda>(es, s). (e # es, s))) rs"

fun explore ::
  "(nat \<Rightarrow> wire \<Rightarrow> net_result) \<Rightarrow> nat \<Rightarrow> state \<Rightarrow> (event list \<times> state) list option"
and explore_each ::
  "(nat \<Rightarrow> wire \<Rightarrow> net_result) \<Rightarrow> nat \<Rightarrow> (event \<times> state) list \<Rightarrow> (event list \<times> state) list option"
where
  "explore server n st =
     (case successors server st of
        [] \<Rightarrow> Some [([], st)]
      | s # ss \<Rightarrow> (case n of 0 \<Rightarrow> None | Suc m \<Rightarrow> explore_each server m (s # ss)))"
| "explore_each server n [] = Some []"
| "explore_each server n ((e, st1) # ss) =
     (case prepend e (explore server n st1) of
        None \<Rightarrow> None
      | Some xs \<Rightarrow>
          (case explore_each server n ss of None \<Rightarrow> None | Some ys \<Rightarrow> Some (xs @ ys)))"

fun is_call :: "event \<Rightarrow> bool" where
  "is_call (Call c) = True"
| "is_call e = False"

definition no_calls :: "event list \<Rightarrow> bool" where
  "no_calls es = list_all (\<lambda>e. \<not> is_call e) es"

subsection \<open>Observations\<close>

text \<open>The calls pushed onto the queue and the requests handed to the network, in order,
  as the trace records them; whether one event comes before another in a schedule.\<close>

fun enqueued_of :: "obs list \<Rightarrow> Request list" where
  "enqueued_of [] = []"
| "enqueued_of (Enqueued r # xs) = r # enqueued_of xs"
| "enqueued_of (x # xs) = enqueued_of xs"

fun dispatched_of :: "obs list \<Rightarrow> wire list" where
  "dispatched_of [] = []"
| "dispatched_of (Dispatched n w # xs) = w # dispatched_of xs"
| "dispatched_of (x # xs) = dispatched_of xs"

definition enqueued :: "state \<Rightarrow> Request list" where
  "enqueued st = enqueued_of (trace st)"

definition dispatched :: "state \<Rightarrow> wire list" where
  "dispatched st = dispatched_of (trace st)"

fun occurs_before :: "'a \<Rightarrow> 'a \<Rightarrow> 'a list \<Rightarrow> bool" where
  "occurs_before a b [] = False"
| "occurs_before a b (x # xs) =
     (if x = a then True else if x = b then False else occurs_before a b xs)"

text \<open>A call without its handle. The calls enqueued before and after the first
  settlement of a promise.\<close>

definition call_of :: "Request \<Rightarrow> string \<times> http_method option \<times> jsval option" where
  "call_of r = (endpoint r, meth r, body r)"

fun is_settlement :: "nat \<Rightarrow> obs \<Rightarrow> bool" where
  "is_settlement p (Settles q out) = (q = p)"
| "is_settlement p x = False"

definition enqueued_before :: "nat \<Rightarrow> state \<Rightarrow> Request list" where
  "enqueued_before p st = enqueued_of (takeWhile (\<lambda>x. \<not> is_settlement p x) (trace st))"

definition enqueued_after :: "nat \<Rightarrow> state \<Rightarrow> Request list" where
  "enqueued_after p st = enqueued_of (dropWhile (\<lambda>x. \<not> is_settlement p x) (trace st))"

text \<open>A response in the success range whose body is JSON and decodes to the value \<open>v\<close>
  (decoded JSON is data, never a promise).\<close>

definition ok_response :: "response \<Rightarrow> jsval \<Rightarrow> bool" where
  "ok_response r v =
     (\<not> 299 < status r \<and> is_json r \<and> body_json r = Some v \<and> as_promise v = None)"

text \<open>The request that \<^verbatim>\<open>request()\<close> sends for a call without method and body.\<close>

definition get_wire :: "string \<Rightarrow> string \<Rightarrow> wire" where
  "get_wire tok ep =
     \<lparr>url = api_base @ ep, wmethod = GET, content_type_header = json_mime,
      authorization = bearer tok, wbody = None\<rparr>"


section \<open>Sample inputs\<close>

text \<open>Concrete responses, servers and schedules on which the theorems below are
  instantiated.\<close>

definition json_response :: "nat \<Rightarrow> jsval \<Rightarrow> response" where
  "json_response code v =
     \<lparr>status = code, statusText = [], content_type = Some json_mime,
      ratelimit_remaining = None, body_text = [], body_json = Some v\<rparr>"

definition first_page :: jsval where
  "first_page =
     JObj [(''items'', JArr [JStr ''a'', JStr ''b'']),
           (''pagination'', JObj [(''limit'', JNum 100), (''offset'', JNum 0), (''total'', JNum 250)])]"

definition second_page :: jsval where
  "second_page = JObj [(''items'', JArr [JStr ''c''])]"

definition third_page :: jsval where
  "third_page = JObj [(''items'', JArr [JStr ''d''])]"

definition pages_server :: "nat \<Rightarrow> wire \<Rightarrow> net_result" where
  "pages_server n w =
     (if n = 0 then NetResponse (json_response 200 first_page)
      else if n = 1 then NetResponse (json_response 200 second_page)
      else NetResponse (json_response 200 third_page))"

text \<open>Two schedules for three pages: in the first every body is decoded before the next
  exchange starts; in the second the body of the second page is decoded after that of
  the third.\<close>

definition pages_in_order :: "event list" where
  "pages_in_order =
     [Tick, Tick, NetDone 0, Tick, Tick, BodyDone 0, Tick, Tick, Tick, Tick, Tick, Tick, Tick,
      NetDone 1, Tick, Tick, BodyDone 1, Tick, Tick, Tick, Tick, TimerFire 0,
      NetDone 2, Tick, Tick, BodyDone 2, Tick, Tick, Tick, Tick, Tick, Tick, Tick, Tick]"

definition pages_out_of_order :: "event list" where
  "pages_out_of_order =
     [Tick, Tick, NetDone 0, Tick, Tick, BodyDone 0, Tick, Tick, Tick, Tick, Tick, Tick, Tick,
      NetDone 1, Tick, Tick, TimerFire 0, NetDone 2, Tick, Tick, BodyDone 2, Tick, Tick, Tick,
      Tick, BodyDone 1, Tick, Tick, Tick, Tick, Tick, Tick, Tick, Tick]"

text \<open>A response whose remaining-quota header is the text \<open>h\<close>.\<close>

definition quota_response :: "string \<Rightarrow> response" where
  "quota_response h =
     \<lparr>status = 200, statusText = [], content_type = Some json_mime,
      ratelimit_remaining = Some h, body_text = [], body_json = Some JNull\<rparr>"

definition quota_server :: "string \<Rightarrow> nat \<Rightarrow> wire \<Rightarrow> net_result" where
  "quota_server h n w = NetResponse (quota_response h)"

definition received_quota :: "string \<Rightarrow> state" where
  "received_quota h = (new_connection ''t'' ENGLISH)\<lparr>received := [(0, quota_response h)]\<rparr>"

definition sample_call :: Request where
  "sample_call = \<lparr>endpoint = ''sites'', meth = None, body = None, handle = 0\<rparr>"

text \<open>An item, and objects keyed by locale.\<close>

definition sample_item :: jsval where
  "sample_item =
     JObj [(''isArchived'', JBool False), (''isDraft'', JBool True),
           (''fieldData'', JObj [(''name'', JStr ''n'')])]"

definition only_spanish :: "(Locales \<times> jsval) list" where
  "only_spanish = [(SPANISH, sample_item)]"

definition english_spanish :: "(Locales \<times> jsval) list" where
  "english_spanish = [(ENGLISH, sample_item), (SPANISH, JObj [])]"

text \<open>An exchange that fails in transport, and a response outside the success range
  with a JSON body.\<close>

definition failing_server :: "nat \<Rightarrow> wire \<Rightarrow> net_result" where
  "failing_server n w = NetFail TypeError"

definition not_found :: jsval where
  "not_found = JObj [(''message'', JStr ''not found'')]"

definition error_server :: "nat \<Rightarrow> wire \<Rightarrow> net_result" where
  "error_server n w = NetResponse (json_response 404 not_found)"








section \<open>Evaluation\<close>

text \<open>
  The equations by which a run on given inputs is computed inside the logic: the
  definitions with their tuple patterns written as projections, the equations of the
  datatypes and records, and the arithmetic of indices. Conditionals and case
  distinctions are decided before their branches are looked at.
\<close>

lemmas exec_funs =
  new_promise_def lookup_promise_def settle_def resolve_with_def unresolved_def
  resolve_def reject_def subscribe_def then_k_def promise_all_def all_element_def
  wire_of_def global_fetch_then_def request_def fetch_def fetch_path_def read_body_def
  on_response_def fetchItems_def fetchAllItems_def updateItem_def createItem_def
  publishItems_def lookup_locale_def createItemAllLocales_def deleteItem_def
  fetch_all_k_def push_items_k_def return_items_k_def create_all_k_def publish_k_def
  console_log_k_def net_done_def body_done_def timer_fire_def step_def candidates_def
  successors_def prepend_def iterate_def List.map_filter_def quiescent_def
  all_subscribe.simps fetch_pages.simps update_locales.simps delete_calls.simps
  run_job.simps explore.simps explore_each.simps apply_kont.simps invoke.simps run.simps
  enqueued_of.simps dispatched_of.simps enqueued_def dispatched_def occurs_before.simps
  is_call.simps no_calls_def call_of_def is_settlement.simps enqueued_before_def
  enqueued_after_def

lemmas exec_defs = new_connection_def Let_def exec_funs [unfolded split_def]

lemmas exec_data =
  state.simps Request.simps RequestOptions.simps wire.simps response.simps
  jsval.simps jsnum.simps pstate.simps outcome.simps reaction.simps kont.simps job.simps
  obs.simps event.simps net_result.simps Locales.simps http_method.simps opcall.simps
  option.simps sum.simps list.simps prod.inject prod.case fst_conv snd_conv nat.simps
  if_True if_False simp_thms bool.case fun_upd_apply option.sel
  case_nat_numeral pred_numeral_simps BitM.simps
  append.simps list.map filter.simps map_of.simps list.size(3) length_Cons
  add_0 add_Suc_right add_Suc add_0_right
  nth_Cons_0 nth_Cons_Suc list_update.simps replicate.simps
  take_Suc_Cons take_0 drop_0 drop_Suc_Cons take.simps drop.simps
  Suc_less_eq zero_less_Suc not_less0 less_nat_zero_code Suc_le_mono le0 not_less_eq_eq
  diff_Suc_Suc diff_zero diff_Suc_1 One_nat_def
  upt.simps option.map o_apply list.pred_inject takeWhile.simps dropWhile.simps

lemmas exec_congs =
  let_weak_cong if_weak_cong option.case_cong_weak list.case_cong_weak sum.case_cong_weak
  jsval.case_cong_weak jsnum.case_cong_weak pstate.case_cong_weak outcome.case_cong_weak
  reaction.case_cong_weak kont.case_cong_weak job.case_cong_weak event.case_cong_weak
  net_result.case_cong_weak nat.case_cong_weak bool.case_cong_weak

lemma as_promise_simps:
  "as_promise (JPromise q) = Some q"
  "as_promise JUndefined = None"
  "as_promise JNull = None"
  "as_promise (JBool b) = None"
  "as_promise (JNum i) = None"
  "as_promise (JStr s) = None"
  "as_promise (JArr xs) = None"
  "as_promise (JObj kvs) = None"
  "as_promise (JResponse n) = None"
  "as_promise (JError name) = None"
  by (simp_all add: as_promise_def)

section \<open>Every run of a closed system is one that \<open>explore\<close> finds\<close>

declare explore.simps [simp del]

lemma set_map_filter: "set (List.map_filter f xs) = {y. \<exists>x \<in> set xs. f x = Some y}"
  by (induction xs) (auto simp: List.map_filter_def)

lemma step_candidate:
  assumes "step server e st = Some st1" and "\<not> is_call e"
  shows "e \<in> set (candidates st)"
proof (cases e)
  case Tick
  with assms show ?thesis
    by (auto simp: step_def candidates_def split: if_splits list.splits)
next
  case (NetDone n)
  with assms have "jobs st = []" and "map_of (inflight st) n \<noteq> None"
    by (auto simp: step_def net_done_def split: if_splits option.splits)
  then have "n \<in> fst ` set (inflight st)"
    by (metis map_of_eq_None_iff)
  with \<open>jobs st = []\<close> NetDone show ?thesis
    by (auto simp: candidates_def)
next
  case (BodyDone n)
  with assms have "jobs st = []" and "map_of (bodies st) n \<noteq> None"
    by (auto simp: step_def body_done_def split: if_splits option.splits)
  then have "n \<in> fst ` set (bodies st)"
    by (metis map_of_eq_None_iff)
  with \<open>jobs st = []\<close> BodyDone show ?thesis
    by (auto simp: candidates_def)
next
  case (TimerFire i)
  with assms show ?thesis
    by (auto simp: step_def timer_fire_def candidates_def split: if_splits)
next
  case (Call c)
  with assms show ?thesis by simp
qed

lemma step_successor:
  assumes "step server e st = Some st1" and "\<not> is_call e"
  shows "(e, st1) \<in> set (successors server st)"
  using assms step_candidate [OF assms]
  by (auto simp: successors_def set_map_filter)

lemma quiescent_final: "quiescent st \<Longrightarrow> successors server st = []"
  by (simp add: quiescent_def successors_def candidates_def List.map_filter_def)

lemma explore_each_member:
  assumes "explore_each server n ss = Some rs" and "(e, st1) \<in> set ss"
  shows "\<exists>rs1. explore server n st1 = Some rs1 \<and> (\<forall>(es, s) \<in> set rs1. (e # es, s) \<in> set rs)"
  using assms
proof (induction ss arbitrary: rs)
  case Nil
  then show ?case by simp
next
  case (Cons p ss)
  obtain e' st' where p: "p = (e', st')" by (cases p)
  from Cons.prems(1) p obtain xs ys where
    xs: "prepend e' (explore server n st') = Some xs" and
    ys: "explore_each server n ss = Some ys" and rs: "rs = xs @ ys"
    by (auto split: option.splits)
  show ?case
  proof (cases "(e, st1) = p")
    case True
    with p xs rs show ?thesis
      by (auto simp: prepend_def)
  next
    case False
    with Cons.prems(2) have "(e, st1) \<in> set ss" by simp
    from Cons.IH [OF ys this] rs show ?thesis by auto
  qed
qed

lemma explore_sound:
  assumes "run server sched st = Some st'" and "no_calls sched"
    and "successors server st' = []" and "explore server n st = Some rs"
  shows "(sched, st') \<in> set rs"
  using assms
proof (induction sched arbitrary: st n rs)
  case Nil
  then show ?case by (auto simp: explore.simps [of server n])
next
  case (Cons e es)
  from Cons.prems(1) obtain st1 where
    st1: "step server e st = Some st1" and rest: "run server es st1 = Some st'"
    by (auto split: option.splits)
  from Cons.prems(2) have nc: "\<not> is_call e" "no_calls es"
    by (simp_all add: no_calls_def)
  have mem: "(e, st1) \<in> set (successors server st)"
    by (rule step_successor [OF st1 nc(1)])
  then obtain s ss where succ: "successors server st = s # ss"
    by (cases "successors server st") auto
  with Cons.prems(4) obtain m where n: "n = Suc m"
    and each: "explore_each server m (successors server st) = Some rs"
    by (cases n) (auto simp: explore.simps [of server _ st])
  from explore_each_member [OF each mem] obtain rs1 where
    rs1: "explore server m st1 = Some rs1" and
    sub: "\<forall>(es, s) \<in> set rs1. (e # es, s) \<in> set rs"
    by blast
  from Cons.IH [OF rest nc(2) Cons.prems(3) rs1] sub show ?case by auto
qed

section \<open>Integers that are doubles\<close>

lemma bit_length_bounds: "0 < n \<Longrightarrow> 2 ^ (bit_length n - 1) \<le> n \<and> n < 2 ^ bit_length n"
proof (induction n rule: bit_length.induct)
  case (1 n)
  show ?case
  proof (cases "n div 2 \<le> 0")
    case True
    with 1(2) have "n = 1" by auto
    then show ?thesis by (simp add: bit_length.simps [of 1] bit_length.simps [of 0])
  next
    case False
    with 1 have ih: "2 ^ (bit_length (n div 2) - 1) \<le> n div 2" "n div 2 < 2 ^ bit_length (n div 2)"
      by auto
    from False have pos: "0 < bit_length (n div 2)"
      by (simp add: bit_length.simps [of "n div 2"])
    have eq: "bit_length n = Suc (bit_length (n div 2))"
      using 1(2) by (simp add: bit_length.simps [of n])
    from pos obtain k where k: "bit_length (n div 2) = Suc k" by (cases "bit_length (n div 2)") auto
    with ih have "2 ^ k \<le> n div 2" "n div 2 < 2 ^ Suc k" by simp_all
    then have "2 * 2 ^ k \<le> n" "n < 2 * 2 ^ Suc k" by auto
    with eq k show ?thesis by simp
  qed
qed

lemma round_half_even_int: "round_half_even (of_int m) = m"
  by (simp add: round_half_even_def)

lemma to_double_nat:
  assumes "n \<le> 2 ^ 53"
  shows "to_double (of_nat n) = Fin (of_nat n)"
proof (cases "n = 0")
  case True
  then show ?thesis by (simp add: to_double_def)
next
  case False
  then have pos: "0 < int n" by simp
  define b where "b = bit_length (int n)"
  from bit_length_bounds [OF pos] have lo: "2 ^ (b - 1) \<le> int n" and hi: "int n < 2 ^ b"
    by (simp_all add: b_def)
  from pos have bpos: "0 < b"
    by (simp add: b_def bit_length.simps [of "int n"])
  have n53: "int n \<le> 2 ^ 53"
    using assms by (metis of_nat_le_iff of_nat_numeral of_nat_power)
  have b54: "b \<le> 54"
  proof (rule ccontr)
    assume "\<not> b \<le> 54"
    then have "54 \<le> b - 1" by simp
    then have "(2::int) ^ 54 \<le> 2 ^ (b - 1)" by (rule power_increasing) simp
    with lo n53 have "(2::int) ^ 54 \<le> 2 ^ 53" by linarith
    then show False by simp
  qed
  have q: "quotient_of (of_nat n) = (int n, 1)"
    using quotient_of_int [of "int n"] by (simp add: Rat.of_int_def)
  have b1: "bit_length 1 = 1"
    by (simp add: bit_length.simps [of 1] bit_length.simps [of 0])
  have "pow2 (int b - 1) = 2 ^ (b - 1)"
    using bpos by (simp add: pow2_def nat_diff_distrib')
  also have "\<dots> = of_int (2 ^ (b - 1))" by simp
  also have "\<dots> \<le> of_int (int n)"
    using lo by (simp only: of_int_le_iff)
  finally have e: "binary_exponent (of_nat n) = int b - 1"
    by (simp add: binary_exponent_def q b1 b_def)
  have m: "max (int b - 1) (- 1022) = int b - 1" by simp
  define q where "q = pow2 (int b - 1 - 52)"
  have val: "of_int (round_half_even (of_nat n / q)) * q = (of_nat n :: rat)"
  proof (cases "b = 54")
    case True
    with lo n53 have "int n = 2 ^ 53" by simp
    then have n: "n = 2 ^ 53"
      by (metis of_nat_eq_iff of_nat_numeral of_nat_power)
    have q2: "q = 2" by (simp add: q_def True pow2_def)
    have "(of_nat n :: rat) / q = of_int (2 ^ 52)"
      by (simp add: n q2)
    then show ?thesis
      by (simp only: round_half_even_int) (simp add: n q2)
  next
    case False
    with b54 have "b \<le> 53" by simp
    then have "int b - 1 - 52 \<le> 0" "nat (- (int b - 1 - 52)) = 53 - b" by simp_all
    then have p: "q = 1 / 2 ^ (53 - b)"
      by (cases "int b - 1 - 52 = 0") (simp_all add: q_def pow2_def)
    have "(of_nat n :: rat) / q = of_int (int n * 2 ^ (53 - b))"
      by (simp add: p)
    then show ?thesis
      by (simp only: round_half_even_int) (simp add: p)
  qed
  have "(of_nat n :: rat) \<le> 2 ^ 53"
    using assms by (metis of_nat_le_iff of_nat_numeral of_nat_power)
  also have "\<dots> < 2 ^ 1024" by simp
  finally have small: "(of_nat n :: rat) < 2 ^ 1024" .
  have "round_positive (of_nat n) = (if (of_nat n :: rat) < 2 ^ 1024 then Fin (of_nat n) else PInf)"
    unfolding round_positive_def Let_def e m q_def [symmetric] val ..
  with small have "round_positive (of_nat n) = Fin (of_nat n)"
    by (simp only: if_True)
  with False show ?thesis
    by (simp add: to_double_def)
qed

section \<open>Pagination fan-out\<close>

lemma page_indices_250: "page_indices (JNum 250) = Some [Suc 0, Suc (Suc 0)]"
proof -
  have total: "to_double 250 = Fin 250"
    using to_double_nat [of 250] by simp
  have quotient: "to_double (5 / 2) = Fin (5 / 2)"
    by code_simp
  have "\<lceil>(5::rat) / 2\<rceil> = 3" by (simp add: ceiling_unique)
  then show ?thesis by (simp add: page_indices_def total quotient upt_rec)
qed

lemma page_offsets: "Suc 0 * 100 = 100" "Suc (Suc 0) * 100 = 200"
  by simp_all

lemma ok_responseD:
  assumes "ok_response r v"
  shows "(299 < status r) = False" "is_json r = True" "body_json r = Some v"
    "as_promise v = None"
  using assms by (simp_all add: ok_response_def)

lemma ok_json_response: "code \<le> 299 \<Longrightarrow> as_promise v = None \<Longrightarrow> ok_response (json_response code v) v"
  by (simp add: ok_response_def json_response_def is_json_def)

lemmas exec_numerals = One_nat_def numeral_2_eq_2 numeral_3_eq_3

text \<open>
  C8, as the code has it. The statement is about a connection on which \<^verbatim>\<open>fetchAllItems\<close>
  is the first and only call, and about the runs in which each of the three exchanges
  completes with a success status and a JSON body, the first page reporting a total of 250
  items. When such a run comes to rest, exactly three calls have been enqueued, the list
  calls (no method, no body) for the offsets 0, 100 and 200 in this order; exactly these
  three requests have been sent, in the same order; and the promise of \<^verbatim>\<open>fetchAllItems\<close>
  is fulfilled with the items of the first page followed by those of the two other pages,
  each page once: in page order when the body of the second page is decoded before the
  body of the third, and with the third page before the second otherwise (each callback
  pushes onto the shared array when its own body has been decoded).
\<close>

theorem fetchAllItems_three_pages:
  assumes srv: "server 0 (get_wire tok (items_endpoint cid 100 0)) = NetResponse r0"
    "server 1 (get_wire tok (items_endpoint cid 100 100)) = NetResponse r1"
    "server 2 (get_wire tok (items_endpoint cid 100 200)) = NetResponse r2"
    and ok: "ok_response r0 v0" "ok_response r1 v1" "ok_response r2 v2"
    and first: "get_prop v0 ''items'' = Inr (JArr xs0)" "get_prop v0 ''pagination'' = Inr pg"
      "get_prop pg ''total'' = Inr (JNum 250)"
    and rest: "get_prop v1 ''items'' = Inr (JArr xs1)" "get_prop v2 ''items'' = Inr (JArr xs2)"
    and run: "run server sched (snd (fetchAllItems cid (new_connection tok l))) = Some st"
      "no_calls sched" "quiescent st"
  shows "map (\<lambda>r. (endpoint r, meth r, body r)) (enqueued st) =
           [(items_endpoint cid 100 0, None, None), (items_endpoint cid 100 100, None, None),
            (items_endpoint cid 100 200, None, None)] \<and>
         dispatched st =
           [get_wire tok (items_endpoint cid 100 0), get_wire tok (items_endpoint cid 100 100),
            get_wire tok (items_endpoint cid 100 200)] \<and>
         lookup_promise st (fst (fetchAllItems cid (new_connection tok l))) =
           Some (Settled (Fulfilled (JArr (xs0 @
             (if occurs_before (BodyDone 1) (BodyDone 2) sched then xs1 @ xs2 else xs2 @ xs1)))))"
proof -
  let ?st0 = "snd (fetchAllItems cid (new_connection tok l))"
  let ?Q = "\<lambda>es s.
    map (\<lambda>r. (endpoint r, meth r, body r)) (enqueued s) =
      [(items_endpoint cid 100 0, None, None), (items_endpoint cid 100 100, None, None),
       (items_endpoint cid 100 200, None, None)] \<and>
    dispatched s =
      [get_wire tok (items_endpoint cid 100 0), get_wire tok (items_endpoint cid 100 100),
       get_wire tok (items_endpoint cid 100 200)] \<and>
    lookup_promise s (fst (fetchAllItems cid (new_connection tok l))) =
      Some (Settled (Fulfilled (JArr (xs0 @
        (if occurs_before (BodyDone 1) (BodyDone 2) es then xs1 @ xs2 else xs2 @ xs1)))))"
  have srv': "server 0 (get_wire tok (items_endpoint cid 100 0)) = NetResponse r0"
    "server (Suc 0) (get_wire tok (items_endpoint cid 100 100)) = NetResponse r1"
    "server (Suc (Suc 0)) (get_wire tok (items_endpoint cid 100 200)) = NetResponse r2"
    using srv by (simp_all add: numeral_2_eq_2)
  have eval: "case explore server 80 ?st0 of
                None \<Rightarrow> False
              | Some rs \<Rightarrow> list_all (\<lambda>(es, s). ?Q es s) rs"
    by (simp only: exec_defs exec_data exec_numerals srv' [unfolded get_wire_def] get_wire_def
        ok_responseD [OF ok(1)] ok_responseD [OF ok(2)] ok_responseD [OF ok(3)] first rest
        page_indices_250 page_offsets as_promise_simps append_assoc cong: exec_congs)
  then obtain rs where rs: "explore server 80 ?st0 = Some rs"
    "list_all (\<lambda>(es, s). ?Q es s) rs"
    by (cases "explore server 80 ?st0") auto
  from explore_sound [OF run(1) run(2) quiescent_final [OF run(3)] rs(1)]
  have "(sched, st) \<in> set rs" .
  with rs(2) show ?thesis
    by (auto simp: list_all_iff)
qed

lemma sample_pages:
  "get_prop first_page ''items'' = Inr (JArr [JStr ''a'', JStr ''b''])"
  "get_prop first_page ''pagination'' =
     Inr (JObj [(''limit'', JNum 100), (''offset'', JNum 0), (''total'', JNum 250)])"
  "get_prop (JObj [(''limit'', JNum 100), (''offset'', JNum 0), (''total'', JNum 250)]) ''total'' =
     Inr (JNum 250)"
  "get_prop second_page ''items'' = Inr (JArr [JStr ''c''])"
  "get_prop third_page ''items'' = Inr (JArr [JStr ''d''])"
  "as_promise first_page = None" "as_promise second_page = None" "as_promise third_page = None"
  by (simp_all add: get_prop_def first_page_def second_page_def third_page_def as_promise_def)

lemma sample_pages_ok:
  "ok_response (json_response 200 first_page) first_page"
  "ok_response (json_response 200 second_page) second_page"
  "ok_response (json_response 200 third_page) third_page"
  by (simp_all add: ok_json_response sample_pages)

lemma pages_server_simps:
  "pages_server 0 w = NetResponse (json_response 200 first_page)"
  "pages_server (Suc 0) w = NetResponse (json_response 200 second_page)"
  "pages_server (Suc (Suc 0)) w = NetResponse (json_response 200 third_page)"
  by (simp_all add: pages_server_def)

theorem fetchAllItems_three_pages_witness:
  "\<exists>st. run pages_server pages_in_order (snd (fetchAllItems ''c'' (new_connection ''t'' ENGLISH))) = Some st \<and>
     no_calls pages_in_order \<and> quiescent st \<and>
     map (\<lambda>r. (endpoint r, meth r, body r)) (enqueued st) =
       [(items_endpoint ''c'' 100 0, None, None), (items_endpoint ''c'' 100 100, None, None),
        (items_endpoint ''c'' 100 200, None, None)] \<and>
     dispatched st =
       [get_wire ''t'' (items_endpoint ''c'' 100 0), get_wire ''t'' (items_endpoint ''c'' 100 100),
        get_wire ''t'' (items_endpoint ''c'' 100 200)] \<and>
     lookup_promise st (fst (fetchAllItems ''c'' (new_connection ''t'' ENGLISH))) =
       Some (Settled (Fulfilled (JArr [JStr ''a'', JStr ''b'', JStr ''c'', JStr ''d''])))"
proof -
  let ?st0 = "snd (fetchAllItems ''c'' (new_connection ''t'' ENGLISH))"
  have "case run pages_server pages_in_order ?st0 of None \<Rightarrow> False | Some st \<Rightarrow> quiescent st"
    by (simp only: exec_defs exec_data exec_numerals pages_in_order_def pages_server_simps
        ok_responseD [OF sample_pages_ok(1)] ok_responseD [OF sample_pages_ok(2)]
        ok_responseD [OF sample_pages_ok(3)] sample_pages page_indices_250 page_offsets
        as_promise_simps cong: exec_congs)
  then obtain st where st: "run pages_server pages_in_order ?st0 = Some st" "quiescent st"
    by (cases "run pages_server pages_in_order ?st0") auto
  have nc: "no_calls pages_in_order"
    by (simp add: no_calls_def pages_in_order_def)
  have order: "occurs_before (BodyDone 1) (BodyDone 2) pages_in_order"
    by (simp add: pages_in_order_def)
  from fetchAllItems_three_pages [of pages_server, OF _ _ _ sample_pages_ok sample_pages(1-5) st(1) nc st(2)]
  show ?thesis
    using st nc order by (simp add: pages_server_def)
qed

text \<open>
  Against C8 as stated: with the pages \<open>[a, b]\<close>, \<open>[c]\<close> and \<open>[d]\<close>, the run in which the body
  of the second page is decoded after that of the third comes to rest with the result
  \<open>[a, b, d, c]\<close>, which is not the pages in page-index order.
\<close>

theorem fetchAllItems_order_counterexample:
  "run pages_server pages_out_of_order (snd (fetchAllItems ''c'' (new_connection ''t'' ENGLISH))) \<noteq> None \<and>
   quiescent (the (run pages_server pages_out_of_order (snd (fetchAllItems ''c'' (new_connection ''t'' ENGLISH))))) \<and>
   lookup_promise (the (run pages_server pages_out_of_order (snd (fetchAllItems ''c'' (new_connection ''t'' ENGLISH)))))
     (fst (fetchAllItems ''c'' (new_connection ''t'' ENGLISH))) =
     Some (Settled (Fulfilled (JArr [JStr ''a'', JStr ''b'', JStr ''d'', JStr ''c''])))"
  by (simp only: exec_defs exec_data exec_numerals pages_out_of_order_def pages_server_simps
      ok_responseD [OF sample_pages_ok(1)] ok_responseD [OF sample_pages_ok(2)]
      ok_responseD [OF sample_pages_ok(3)] sample_pages page_indices_250 page_offsets
      as_promise_simps cong: exec_congs)

section \<open>Rate limit state\<close>

lemma digit_not_ws: "is_digit c \<Longrightarrow> \<not> is_ws c"
  by (auto simp: is_digit_def is_ws_def Let_def)

lemma trim_digits:
  assumes "s \<noteq> []" and "list_all is_digit s"
  shows "trim s = s"
proof -
  from assms obtain c cs where s: "s = c # cs" by (cases s) auto
  with assms have "\<not> is_ws c" by (simp add: digit_not_ws)
  with s have 1: "dropWhile is_ws s = s" by simp
  from assms have "rev s \<noteq> []" "list_all is_digit (rev s)"
    by (simp_all add: list_all_iff)
  then obtain d ds where r: "rev s = d # ds" "is_digit d"
    by (cases "rev s") auto
  then have "dropWhile is_ws (rev s) = rev s"
    by (simp add: digit_not_ws)
  with 1 show ?thesis by (simp add: trim_def)
qed

lemma non_decimal_digits:
  assumes "list_all is_digit s"
  shows "non_decimal s = None"
proof (cases s)
  case Nil
  then show ?thesis by (simp add: non_decimal_def)
next
  case (Cons z r)
  show ?thesis
  proof (cases r)
    case Nil
    with Cons show ?thesis by (simp add: non_decimal_def)
  next
    case (Cons x ds)
    with assms \<open>s = z # r\<close> have "is_digit x" by simp
    then have "x \<noteq> CHR ''x''" "x \<noteq> CHR ''X''" "x \<noteq> CHR ''o''" "x \<noteq> CHR ''O''"
      "x \<noteq> CHR ''b''" "x \<noteq> CHR ''B''"
      by (auto simp: is_digit_def)
    with Cons \<open>s = z # r\<close> show ?thesis by (simp add: non_decimal_def)
  qed
qed

lemma unsigned_decimal_digits:
  assumes "s \<noteq> []" and "list_all is_digit s" and "dec_val s \<le> 2 ^ 53"
  shows "unsigned_decimal s = Fin (of_nat (dec_val s))"
proof -
  from assms obtain c cs where s: "s = c # cs" "is_digit c" by (cases s) auto
  then have "c \<noteq> CHR ''I''" by (auto simp: is_digit_def)
  with s have ninf: "s \<noteq> ''Infinity''" by auto
  from assms(2) have tw: "takeWhile is_digit s = s" "dropWhile is_digit s = []"
    by (simp_all add: list_all_iff)
  show ?thesis
    by (simp add: unsigned_decimal_def exponent_part_def scale10_def tw ninf assms(1) Let_def
        to_double_nat [OF assms(3)])
qed

text \<open>A header that consists of decimal digits is converted to the number they denote,
  when that number is at most \<open>2 ^ 53\<close> (every such number is a double).\<close>

lemma StringToNumber_digits:
  assumes "s \<noteq> []" and "list_all is_digit s" and "dec_val s \<le> 2 ^ 53"
  shows "StringToNumber s = Fin (of_nat (dec_val s))"
proof -
  from assms obtain c cs where s: "s = c # cs" "is_digit c" by (cases s) auto
  then have sign: "c \<noteq> CHR ''-''" "c \<noteq> CHR ''+''" by (auto simp: is_digit_def)
  show ?thesis
    using assms s sign
    by (simp add: StringToNumber_def trim_digits non_decimal_digits
        unsigned_decimal_digits [symmetric])
qed

lemma to_double_5: "to_double 5 = Fin 5"
  using to_double_nat [of 5] by simp

lemma to_double_57: "to_double 57 = Fin 57"
  using to_double_nat [of 57] by simp

lemma StringToNumber_minus_5: "StringToNumber ''-5'' = Fin (- 5)"
  by (simp add: StringToNumber_def trim_def is_ws_def non_decimal_def unsigned_decimal_def
      is_digit_def exponent_part_def negate_def dec_val_def scale10_def to_double_5)

lemma StringToNumber_57: "StringToNumber ''57'' = Fin 57"
  by (simp add: StringToNumber_def trim_def is_ws_def non_decimal_def unsigned_decimal_def
      is_digit_def exponent_part_def negate_def dec_val_def scale10_def to_double_57)

lemma ratelimit_frame [simp]:
  "ratelimit (snd (new_promise st)) = ratelimit st"
  "ratelimit (settle p out st) = ratelimit st"
  "ratelimit (resolve_with p v st) = ratelimit st"
  "ratelimit (resolve p v st) = ratelimit st"
  "ratelimit (reject p v st) = ratelimit st"
  "ratelimit (snd (read_body n j st)) = ratelimit st"
  by (simp_all add: new_promise_def settle_def resolve_with_def resolve_def reject_def
      read_body_def split: option.splits pstate.splits)

lemma on_response_ratelimit:
  assumes "map_of (received st) n = Some resp"
  shows "ratelimit (snd (on_response r (JResponse n) st)) =
         or_zero (Number_of_header (ratelimit_remaining resp))"
  using assms by (simp add: on_response_def Let_def split_def)

lemma response_job_ratelimit:
  assumes "map_of (received st) n = Some resp"
  shows "ratelimit (run_job (ReactionJob (Then (OnResponse r) d) (Fulfilled (JResponse n))) st) =
         or_zero (Number_of_header (ratelimit_remaining resp))"
  using on_response_ratelimit [OF assms, of r]
  by (simp add: split_def Let_def split: sum.splits)

text \<open>
  C6, as the code has it. After the microtask in which the response callback of an
  exchange has run, the rate limit state is \<^verbatim>\<open>Number(header) || 0\<close> of the remaining-quota
  header of that response: it does not depend on the value it had before; it is 0 when the
  header is missing or not numeric; and it is the non-negative integer that the header
  denotes when the header consists of decimal digits and denotes a number of at most
  \<open>2 ^ 53\<close>. (For other numeric headers it is the number JavaScript reads, which can be
  negative or fractional.)
\<close>

theorem ratelimit_after_exchange:
  assumes "map_of (received st) n = Some resp"
  shows "ratelimit (run_job (ReactionJob (Then (OnResponse r) d) (Fulfilled (JResponse n))) st) =
           or_zero (Number_of_header (ratelimit_remaining resp)) \<and>
         ratelimit (run_job (ReactionJob (Then (OnResponse r) d) (Fulfilled (JResponse n)))
                      (st\<lparr>ratelimit := x\<rparr>)) =
           ratelimit (run_job (ReactionJob (Then (OnResponse r) d) (Fulfilled (JResponse n))) st) \<and>
         (ratelimit_remaining resp = None \<longrightarrow>
            ratelimit (run_job (ReactionJob (Then (OnResponse r) d) (Fulfilled (JResponse n))) st) =
              Fin 0) \<and>
         (\<forall>h. ratelimit_remaining resp = Some h \<and> StringToNumber h = NaN \<longrightarrow>
            ratelimit (run_job (ReactionJob (Then (OnResponse r) d) (Fulfilled (JResponse n))) st) =
              Fin 0) \<and>
         (\<forall>h. ratelimit_remaining resp = Some h \<and> h \<noteq> [] \<and> list_all is_digit h \<and>
              dec_val h \<le> 2 ^ 53 \<longrightarrow>
            ratelimit (run_job (ReactionJob (Then (OnResponse r) d) (Fulfilled (JResponse n))) st) =
              Fin (of_nat (dec_val h)))"
proof -
  let ?job = "ReactionJob (Then (OnResponse r) d) (Fulfilled (JResponse n))"
  have now: "ratelimit (run_job ?job st) = or_zero (Number_of_header (ratelimit_remaining resp))"
    by (rule response_job_ratelimit [OF assms])
  from assms have "map_of (received (st\<lparr>ratelimit := x\<rparr>)) n = Some resp" by simp
  from response_job_ratelimit [OF this]
  have other: "ratelimit (run_job ?job (st\<lparr>ratelimit := x\<rparr>)) =
               or_zero (Number_of_header (ratelimit_remaining resp))" .
  have digits: "or_zero (Fin (of_nat k)) = Fin (of_nat k)" for k
    by (simp add: or_zero_def)
  show ?thesis
    using now other
    by (auto simp: Number_of_header_def or_zero_def StringToNumber_digits)
qed

lemma received_quota_lookup: "map_of (received (received_quota h)) 0 = Some (quota_response h)"
  by (simp add: received_quota_def)

theorem ratelimit_after_exchange_witness:
  "map_of (received (received_quota ''57'')) 0 = Some (quota_response ''57'') \<and>
   ratelimit (run_job (ReactionJob (Then (OnResponse sample_call) 0) (Fulfilled (JResponse 0)))
                (received_quota ''57'')) = Fin 57"
  using ratelimit_after_exchange
    [OF received_quota_lookup, where r = sample_call and d = 0 and x = "Fin 0"]
  by (simp add: received_quota_lookup quota_response_def Number_of_header_def StringToNumber_57
      or_zero_def)

text \<open>
  Against C6 as stated: a response whose remaining-quota header is \<^verbatim>\<open>-5\<close> leaves the rate
  limit state at \<open>-5\<close>, a negative number.
\<close>

theorem ratelimit_negative_counterexample:
  "run (quota_server ''-5'') [NetDone 0, Tick] (snd (fetch_path ''sites'' (new_connection ''t'' ENGLISH)))
     \<noteq> None \<and>
   ratelimit (the (run (quota_server ''-5'') [NetDone 0, Tick]
                     (snd (fetch_path ''sites'' (new_connection ''t'' ENGLISH))))) = Fin (- 5)"
proof -
  have ok: "ok_response (quota_response ''-5'') JNull"
    by (simp add: ok_response_def quota_response_def is_json_def as_promise_def)
  have quota: "or_zero (Number_of_header (ratelimit_remaining (quota_response ''-5''))) = Fin (- 5)"
    by (simp add: quota_response_def Number_of_header_def StringToNumber_minus_5 or_zero_def)
  show ?thesis
    by (simp only: exec_defs exec_data exec_numerals quota_server_def ok_responseD [OF ok] quota
        as_promise_simps cong: exec_congs)
qed

section \<open>What a call puts on the queue\<close>

lemma enqueued_of_append: "enqueued_of (xs @ ys) = enqueued_of xs @ enqueued_of ys"
  by (induction xs rule: enqueued_of.induct) auto

lemma dispatched_of_append: "dispatched_of (xs @ ys) = dispatched_of xs @ dispatched_of ys"
  by (induction xs rule: dispatched_of.induct) auto

lemma new_promise_fst [simp]: "fst (new_promise st) = length (promises st)"
  by (simp add: new_promise_def)

lemma new_promise_promises [simp]:
  "promises (snd (new_promise st)) = promises st @ [Pending False []]"
  by (simp add: new_promise_def)

lemma new_promise_frame [simp]:
  "trace (snd (new_promise st)) = trace st"
  "queue (snd (new_promise st)) = queue st"
  "isFetching (snd (new_promise st)) = isFetching st"
  "inflight (snd (new_promise st)) = inflight st"
  "exchanges (snd (new_promise st)) = exchanges st"
  "jobs (snd (new_promise st)) = jobs st"
  "timers (snd (new_promise st)) = timers st"
  "token (snd (new_promise st)) = token st"
  "PRIMARY_LOCALE (snd (new_promise st)) = PRIMARY_LOCALE st"
  by (simp_all add: new_promise_def)

lemma enqueued_frame [simp]:
  "enqueued (snd (new_promise st)) = enqueued st"
  "enqueued (settle p out st) = enqueued st"
  "enqueued (resolve_with p v st) = enqueued st"
  "enqueued (resolve p v st) = enqueued st"
  "enqueued (reject p v st) = enqueued st"
  "enqueued (subscribe p r st) = enqueued st"
  "enqueued (snd (then_k p k st)) = enqueued st"
  "enqueued (snd (global_fetch_then w k st)) = enqueued st"
  "enqueued (request st) = enqueued st"
  by (simp_all add: enqueued_def new_promise_def settle_def resolve_with_def resolve_def
      reject_def subscribe_def then_k_def global_fetch_then_def request_def enqueued_of_append
      split_def Let_def split: option.splits pstate.splits list.splits)

lemma dispatched_frame [simp]:
  "dispatched (snd (new_promise st)) = dispatched st"
  "dispatched (settle p out st) = dispatched st"
  "dispatched (resolve_with p v st) = dispatched st"
  "dispatched (resolve p v st) = dispatched st"
  "dispatched (reject p v st) = dispatched st"
  "dispatched (subscribe p r st) = dispatched st"
  "dispatched (snd (then_k p k st)) = dispatched st"
  by (simp_all add: dispatched_def new_promise_def settle_def resolve_with_def resolve_def
      reject_def subscribe_def then_k_def dispatched_of_append
      split_def Let_def split: option.splits pstate.splits list.splits)

lemma fetch_enqueued:
  "enqueued (snd (fetch options st)) =
   enqueued st @ [\<lparr>endpoint = endpoint options, meth = meth options, body = body options,
                   handle = length (promises st)\<rparr>]"
  by (simp add: fetch_def split_def Let_def) (simp add: enqueued_def enqueued_of_append new_promise_def)

lemma fetch_fst [simp]: "fst (fetch options st) = length (promises st)"
  by (simp add: fetch_def split_def Let_def)

text \<open>
  C10. When \<^verbatim>\<open>itemData\<close> is a value whose properties can be read (anything but
  \<^verbatim>\<open>undefined\<close> and \<^verbatim>\<open>null\<close>), \<^verbatim>\<open>createItem\<close> enqueues exactly one call, a POST to the
  create endpoint, whose body has the properties \<^verbatim>\<open>isArchived\<close> and \<^verbatim>\<open>isDraft\<close> of
  \<^verbatim>\<open>itemData\<close> and, as \<^verbatim>\<open>fieldData\<close>, the whole of \<^verbatim>\<open>itemData\<close>. The bulk-create call that
  \<^verbatim>\<open>createItemAllLocales\<close> enqueues has, as \<^verbatim>\<open>fieldData\<close>, the property \<^verbatim>\<open>fieldData\<close> of
  the entry of the primary locale.
\<close>

theorem createItem_body:
  assumes "get_prop itemData ''isArchived'' = Inr a" and "get_prop itemData ''isDraft'' = Inr d"
    and "get_prop (lookup_locale localeData (PRIMARY_LOCALE st)) ''isArchived'' = Inr a'"
    and "get_prop (lookup_locale localeData (PRIMARY_LOCALE st)) ''isDraft'' = Inr d'"
    and "get_prop (lookup_locale localeData (PRIMARY_LOCALE st)) ''fieldData'' = Inr fd"
  shows "enqueued (snd (createItem cid itemData live st)) =
           enqueued st @
           [\<lparr>endpoint = create_endpoint cid live, meth = Some POST,
             body = Some (JObj [(''isArchived'', a), (''isDraft'', d), (''fieldData'', itemData)]),
             handle = Suc (length (promises st))\<rparr>] \<and>
         enqueued (snd (createItemAllLocales cid localeData live st)) =
           enqueued st @
           [\<lparr>endpoint = bulk_endpoint cid, meth = Some POST,
             body = Some (JObj [(''isArchived'', a'), (''isDraft'', d'), (''fieldData'', fd),
                                (''cmsLocaleIds'', object_keys localeData)]),
             handle = Suc (length (promises st))\<rparr>]"
  using assms
  by (simp add: createItem_def createItemAllLocales_def split_def Let_def fetch_enqueued)

lemma sample_item_props:
  "get_prop sample_item ''isArchived'' = Inr (JBool False)"
  "get_prop sample_item ''isDraft'' = Inr (JBool True)"
  "get_prop sample_item ''fieldData'' = Inr (JObj [(''name'', JStr ''n'')])"
  by (simp_all add: sample_item_def get_prop_def)

lemma english_spanish_primary:
  "lookup_locale english_spanish (PRIMARY_LOCALE (new_connection ''t'' ENGLISH)) = sample_item"
  by (simp add: lookup_locale_def english_spanish_def new_connection_def)

lemma new_connection_nothing_enqueued:
  "enqueued (new_connection tok l) = []" "promises (new_connection tok l) = []"
  by (simp_all add: enqueued_def new_connection_def)

theorem createItem_body_witness:
  "enqueued (snd (createItem ''c'' sample_item True (new_connection ''t'' ENGLISH))) =
     [\<lparr>endpoint = create_endpoint ''c'' True, meth = Some POST,
       body = Some (JObj [(''isArchived'', JBool False), (''isDraft'', JBool True),
                          (''fieldData'', sample_item)]),
       handle = 1\<rparr>] \<and>
   enqueued (snd (createItemAllLocales ''c'' english_spanish True (new_connection ''t'' ENGLISH))) =
     [\<lparr>endpoint = bulk_endpoint ''c'', meth = Some POST,
       body = Some (JObj [(''isArchived'', JBool False), (''isDraft'', JBool True),
                          (''fieldData'', JObj [(''name'', JStr ''n'')]),
                          (''cmsLocaleIds'', JArr [JStr (locale_id ENGLISH), JStr (locale_id SPANISH)])]),
       handle = 1\<rparr>]"
  using createItem_body [of sample_item "JBool False" "JBool True" english_spanish
      "new_connection ''t'' ENGLISH" "JBool False" "JBool True" "JObj [(''name'', JStr ''n'')]"
      "''c''" True]
  by (simp add: sample_item_props english_spanish_primary new_connection_nothing_enqueued)
    (simp add: object_keys_def english_spanish_def)

section \<open>A locale map without the primary locale\<close>

lemma reject_new_promise:
  "lookup_promise (reject (length (promises st)) e (snd (new_promise st))) (length (promises st)) =
   Some (Settled (Rejected e))"
  by (simp add: reject_def unresolved_def lookup_promise_def settle_def new_promise_def nth_append)

text \<open>
  C7. When the object keyed by locale has no entry for the primary locale,
  \<^verbatim>\<open>createItemAllLocales\<close> returns a promise that is already rejected, with the TypeError
  that reading \<^verbatim>\<open>isArchived\<close> of \<^verbatim>\<open>undefined\<close> throws, and nothing else has changed: no
  call has been enqueued, no request has been sent, the queue, the exchanges in flight
  and their count are as before.
\<close>

theorem createItemAllLocales_missing_primary:
  assumes "map_of itemData (PRIMARY_LOCALE st) = None"
  shows "lookup_promise (snd (createItemAllLocales cid itemData live st))
           (fst (createItemAllLocales cid itemData live st)) = Some (Settled (Rejected TypeError)) \<and>
         enqueued (snd (createItemAllLocales cid itemData live st)) = enqueued st \<and>
         dispatched (snd (createItemAllLocales cid itemData live st)) = dispatched st \<and>
         queue (snd (createItemAllLocales cid itemData live st)) = queue st \<and>
         inflight (snd (createItemAllLocales cid itemData live st)) = inflight st \<and>
         exchanges (snd (createItemAllLocales cid itemData live st)) = exchanges st \<and>
         jobs (snd (createItemAllLocales cid itemData live st)) = jobs st \<and>
         timers (snd (createItemAllLocales cid itemData live st)) = timers st"
proof -
  have "get_prop (lookup_locale itemData (PRIMARY_LOCALE st)) ''isArchived'' = Inl TypeError"
    using assms by (simp add: lookup_locale_def get_prop_def)
  then have eq: "createItemAllLocales cid itemData live st =
    (length (promises st), reject (length (promises st)) TypeError (snd (new_promise st)))"
    by (simp add: createItemAllLocales_def split_def Let_def)
  have frame: "queue (reject p e s) = queue s" "inflight (reject p e s) = inflight s"
    "exchanges (reject p e s) = exchanges s" "timers (reject p e s) = timers s" for p e s
    by (simp_all add: reject_def settle_def split: option.splits pstate.splits)
  have nojobs: "jobs (reject (length (promises st)) TypeError (snd (new_promise st))) = jobs st"
    by (simp add: reject_def unresolved_def lookup_promise_def settle_def new_promise_def nth_append)
  show ?thesis
    by (simp add: eq reject_new_promise frame nojobs)
qed

theorem createItemAllLocales_missing_primary_witness:
  "map_of only_spanish (PRIMARY_LOCALE (new_connection ''t'' ENGLISH)) = None \<and>
   lookup_promise (snd (createItemAllLocales ''c'' only_spanish True (new_connection ''t'' ENGLISH)))
     (fst (createItemAllLocales ''c'' only_spanish True (new_connection ''t'' ENGLISH))) =
     Some (Settled (Rejected TypeError)) \<and>
   enqueued (snd (createItemAllLocales ''c'' only_spanish True (new_connection ''t'' ENGLISH))) = [] \<and>
   dispatched (snd (createItemAllLocales ''c'' only_spanish True (new_connection ''t'' ENGLISH))) = []"
proof -
  have missing: "map_of only_spanish (PRIMARY_LOCALE (new_connection ''t'' ENGLISH)) = None"
    by (simp add: only_spanish_def new_connection_def)
  have "dispatched (new_connection ''t'' ENGLISH) = []"
    by (simp add: dispatched_def new_connection_def)
  with createItemAllLocales_missing_primary [OF missing, of "''c''" True] missing show ?thesis
    by (simp add: new_connection_nothing_enqueued)
qed

section \<open>An exchange that fails in transport\<close>

lemma lookup_promise_update:
  "lookup_promise (st\<lparr>promises := (promises st)[p := x]\<rparr>) q =
   (if q = p \<and> p < length (promises st) then Some x else lookup_promise st q)"
  by (simp add: lookup_promise_def)

text \<open>
  C1, as the code has it. The promise of the global \<^verbatim>\<open>fetch\<close> has a fulfilment callback
  only. Let exchange \<open>n\<close> be in flight for the call \<open>r\<close>, with \<open>d\<close> the promise derived by
  \<^verbatim>\<open>then\<close> (a fresh promise that nothing refers to), and let the exchange fail with the
  error \<open>e\<close>. When the failure has been delivered and the microtask it causes has run, the
  derived promise \<open>d\<close> is rejected with \<open>e\<close> and no microtask is left; the completion handle
  of the call is as it was (a pending handle is still pending); nothing has been
  enqueued or sent (no retry); the queue, the timers and the in-flight flag are as they
  were, so the flag is still set and a dispatch cycle does nothing.
\<close>

theorem transport_failure_leaves_handle:
  assumes flight: "map_of (inflight st) n = Some (OnResponse r, d, w)"
    and fails: "server n w = NetFail e"
    and idle: "jobs st = []" "\<not> hung st"
    and derived: "lookup_promise st d = Some (Pending False [])" "handle r \<noteq> d"
    and flag: "isFetching st"
  shows "\<exists>st'. run server [NetDone n, Tick] st = Some st' \<and>
           lookup_promise st' (handle r) = lookup_promise st (handle r) \<and>
           lookup_promise st' d = Some (Settled (Rejected e)) \<and>
           jobs st' = [] \<and>
           enqueued st' = enqueued st \<and> dispatched st' = dispatched st \<and>
           exchanges st' = exchanges st \<and>
           queue st' = queue st \<and> timers st' = timers st \<and>
           isFetching st' \<and> request st' = st'"
proof -
  from derived(1) have d: "d < length (promises st)" "promises st ! d = Pending False []"
    by (simp_all add: lookup_promise_def split: if_splits)
  let ?st1 = "st\<lparr>inflight := filter (\<lambda>e. fst e \<noteq> n) (inflight st)\<rparr>"
  let ?st2 = "?st1\<lparr>jobs := [ReactionJob (Then (OnResponse r) d) (Rejected e)]\<rparr>"
  let ?st3 = "?st2\<lparr>jobs := []\<rparr>"
  let ?st' = "?st3\<lparr>promises := (promises st)[d := Settled (Rejected e)],
                    jobs := [], trace := trace st @ [Settles d (Rejected e)]\<rparr>"
  have net: "step server (NetDone n) st = Some ?st2"
    using flight fails idle by (simp add: step_def net_done_def)
  have rej: "reject d e ?st3 = ?st'"
    using d by (simp add: reject_def unresolved_def lookup_promise_def settle_def)
  have tick: "step server Tick ?st2 = Some ?st'"
    using idle rej by (simp add: step_def)
  have run: "run server [NetDone n, Tick] st = Some ?st'"
    using net tick by simp
  have "lookup_promise ?st' (handle r) = lookup_promise st (handle r)"
    using derived(2) by (simp add: lookup_promise_def)
  moreover have "lookup_promise ?st' d = Some (Settled (Rejected e))"
    using d by (simp add: lookup_promise_def)
  moreover have "enqueued ?st' = enqueued st" "dispatched ?st' = dispatched st"
    by (simp_all add: enqueued_def dispatched_def enqueued_of_append dispatched_of_append)
  moreover have "request ?st' = ?st'"
    using flag by (simp add: request_def)
  ultimately show ?thesis
    using run flag by simp
qed

lemma failing_call:
  "map_of (inflight (snd (fetch_path ''sites'' (new_connection ''t'' ENGLISH)))) 0 =
     Some (OnResponse sample_call, 1, get_wire ''t'' ''sites'')"
  "jobs (snd (fetch_path ''sites'' (new_connection ''t'' ENGLISH))) = []"
  "\<not> hung (snd (fetch_path ''sites'' (new_connection ''t'' ENGLISH)))"
  "lookup_promise (snd (fetch_path ''sites'' (new_connection ''t'' ENGLISH))) 1 =
     Some (Pending False [])"
  "lookup_promise (snd (fetch_path ''sites'' (new_connection ''t'' ENGLISH))) 0 =
     Some (Pending False [])"
  "isFetching (snd (fetch_path ''sites'' (new_connection ''t'' ENGLISH)))"
  "handle sample_call = 0"
  by (simp_all add: fetch_path_def fetch_def request_def global_fetch_then_def new_promise_def
      new_connection_def wire_of_def get_wire_def sample_call_def lookup_promise_def Let_def)

theorem transport_failure_leaves_handle_witness:
  "\<exists>st'. run failing_server [NetDone 0, Tick] (snd (fetch_path ''sites'' (new_connection ''t'' ENGLISH))) =
           Some st' \<and>
         lookup_promise st' 0 = Some (Pending False []) \<and>
         lookup_promise st' 1 = Some (Settled (Rejected TypeError)) \<and>
         isFetching st' \<and> request st' = st'"
proof -
  have fails: "failing_server 0 (get_wire ''t'' ''sites'') = NetFail TypeError"
    by (simp add: failing_server_def)
  have distinct: "handle sample_call \<noteq> 1"
    by (simp add: failing_call(7))
  from transport_failure_leaves_handle
    [where st = "snd (fetch_path ''sites'' (new_connection ''t'' ENGLISH))" and n = 0
      and r = sample_call and d = 1 and w = "get_wire ''t'' ''sites''"
      and server = failing_server and e = TypeError,
      OF failing_call(1) fails failing_call(2) failing_call(3) failing_call(4) distinct
      failing_call(6)]
  show ?thesis
    by (auto simp: failing_call)
qed

text \<open>
  Against C1 as stated: a call on a fresh connection whose exchange fails. After the
  failure nothing is left to happen, and the completion handle of the call is still
  pending: it has not been rejected.
\<close>

theorem transport_failure_counterexample:
  "run failing_server [NetDone 0, Tick] (snd (fetch_path ''sites'' (new_connection ''t'' ENGLISH)))
     \<noteq> None \<and>
   quiescent (the (run failing_server [NetDone 0, Tick]
                     (snd (fetch_path ''sites'' (new_connection ''t'' ENGLISH))))) \<and>
   lookup_promise (the (run failing_server [NetDone 0, Tick]
                          (snd (fetch_path ''sites'' (new_connection ''t'' ENGLISH)))))
     (fst (fetch_path ''sites'' (new_connection ''t'' ENGLISH))) = Some (Pending False [])"
  by (simp only: exec_defs exec_data exec_numerals failing_server_def cong: exec_congs)

section \<open>A response outside the success range\<close>

lemma not_found_response:
  "(299 < status (json_response 404 v)) = True"
  "is_json (json_response 404 v) = True"
  "body_json (json_response 404 v) = Some v"
  by (simp_all add: json_response_def is_json_def)

lemma not_found_data: "as_promise not_found = None"
  by (simp add: not_found_def as_promise_def)

text \<open>
  C2, on one input. A call on a fresh connection is answered with status 404 and the JSON
  body \<^verbatim>\<open>{"message": "not found"}\<close>. When nothing is left to happen, the completion handle
  of the call is rejected, and the reason of the rejection is the promise that
  \<^verbatim>\<open>response.json()\<close> returned (promise 2), not the decoded body; that promise is fulfilled
  with the decoded body.
\<close>

theorem error_response_rejects_with_promise:
  "run error_server [NetDone 0, Tick, BodyDone 0] (snd (fetch_path ''sites'' (new_connection ''t'' ENGLISH)))
     \<noteq> None \<and>
   quiescent (the (run error_server [NetDone 0, Tick, BodyDone 0]
                     (snd (fetch_path ''sites'' (new_connection ''t'' ENGLISH))))) \<and>
   lookup_promise (the (run error_server [NetDone 0, Tick, BodyDone 0]
                          (snd (fetch_path ''sites'' (new_connection ''t'' ENGLISH)))))
     (fst (fetch_path ''sites'' (new_connection ''t'' ENGLISH))) =
     Some (Settled (Rejected (JPromise 2))) \<and>
   lookup_promise (the (run error_server [NetDone 0, Tick, BodyDone 0]
                          (snd (fetch_path ''sites'' (new_connection ''t'' ENGLISH))))) 2 =
     Some (Settled (Fulfilled not_found))"
  by (simp only: exec_defs exec_data exec_numerals error_server_def not_found_response
      not_found_data as_promise_simps cong: exec_congs)

section \<open>Creation in all locales\<close>
















end
